theory Spec2Isabelle
  imports Complex_Main "HOL-Library.Signed_Division"
begin

section \<open>Vectors (internal/math/vector.go)\<close>

text \<open>
  In the model of the renderer Go's \<open>float64\<close> is idealised as \<open>real\<close>: rounding, NaN and
  signed zeros are not represented, and the only infinity the renderer uses,
  \<open>math.Inf(1)\<close> as an upper ray parameter, is modelled by its own constructor further
  below. In exact arithmetic \<open>Length\<close> is zero for the zero vector only, which \<open>float64\<close>
  does not guarantee; the length and the normalisation are therefore given a second time,
  with the rounding written out, in the section after this one.
\<close>

record Vec3 =
  X :: real
  Y :: real
  Z :: real

definition NewVec3 :: "real \<Rightarrow> real \<Rightarrow> real \<Rightarrow> Vec3" where
  "NewVec3 x y z = \<lparr>X = x, Y = y, Z = z\<rparr>"

text \<open>The zero value \<open>Vec3{}\<close>.\<close>

definition Vec3_zero :: Vec3 where
  "Vec3_zero = \<lparr>X = 0, Y = 0, Z = 0\<rparr>"

definition Add :: "Vec3 \<Rightarrow> Vec3 \<Rightarrow> Vec3" where
  "Add v other = \<lparr>X = X v + X other, Y = Y v + Y other, Z = Z v + Z other\<rparr>"

definition Sub :: "Vec3 \<Rightarrow> Vec3 \<Rightarrow> Vec3" where
  "Sub v other = \<lparr>X = X v - X other, Y = Y v - Y other, Z = Z v - Z other\<rparr>"

definition Mul :: "Vec3 \<Rightarrow> Vec3 \<Rightarrow> Vec3" where
  "Mul v other = \<lparr>X = X v * X other, Y = Y v * Y other, Z = Z v * Z other\<rparr>"

definition MulScalar :: "Vec3 \<Rightarrow> real \<Rightarrow> Vec3" where
  "MulScalar v scalar = \<lparr>X = X v * scalar, Y = Y v * scalar, Z = Z v * scalar\<rparr>"

definition DivScalar :: "Vec3 \<Rightarrow> real \<Rightarrow> Vec3" where
  "DivScalar v scalar = \<lparr>X = X v / scalar, Y = Y v / scalar, Z = Z v / scalar\<rparr>"

definition Dot :: "Vec3 \<Rightarrow> Vec3 \<Rightarrow> real" where
  "Dot v other = X v * X other + Y v * Y other + Z v * Z other"

definition Cross :: "Vec3 \<Rightarrow> Vec3 \<Rightarrow> Vec3" where
  "Cross v other =
     \<lparr>X = Y v * Z other - Z v * Y other,
      Y = Z v * X other - X v * Z other,
      Z = X v * Y other - Y v * X other\<rparr>"

definition Length :: "Vec3 \<Rightarrow> real" where
  "Length v = sqrt (X v * X v + Y v * Y v + Z v * Z v)"

definition LengthSquared :: "Vec3 \<Rightarrow> real" where
  "LengthSquared v = X v * X v + Y v * Y v + Z v * Z v"

definition Normalize :: "Vec3 \<Rightarrow> Vec3" where
  "Normalize v =
     (let length = Length v in
      if length = 0 then Vec3_zero else DivScalar v length)"

definition Reflect :: "Vec3 \<Rightarrow> Vec3 \<Rightarrow> Vec3" where
  "Reflect v normal = Sub v (MulScalar normal (2 * Dot v normal))"

definition NearZero :: "Vec3 \<Rightarrow> bool" where
  "NearZero v = (let s = 1 / 10 ^ 8 in \<bar>X v\<bar> < s \<and> \<bar>Y v\<bar> < s \<and> \<bar>Z v\<bar> < s)"

definition FastMin :: "real \<Rightarrow> real \<Rightarrow> real" where
  "FastMin a b = (if a < b then a else b)"

definition FastMax :: "real \<Rightarrow> real \<Rightarrow> real" where
  "FastMax a b = (if a > b then a else b)"

section \<open>Length and normalisation in float64 (internal/math/vector.go)\<close>

text \<open>
  \<open>Length\<close>, \<open>FastLength\<close>, \<open>Normalize\<close> and \<open>FastNormalize\<close> once more, with the arithmetic
  of \<open>float64\<close> written out. A value is a finite real, an infinity or NaN; the two zeros
  are one value here, as they are for \<open>==\<close>. An operation on finite values rounds its exact
  result to the nearest value of the format, a tie going to the even significand:
  \<open>quantum x\<close> is the exponent of the last binary place kept at \<open>x\<close>, 52 below the binary
  exponent of \<open>x\<close> and never below -1074, where the subnormal numbers lie; \<open>rhe\<close> rounds to
  the nearest integer, half to even; and a rounded result of magnitude \<open>2^1024\<close> or more
  is an infinity. Each operation is rounded on its own, as the compiler for amd64 does;
  a multiplication fused with the addition that follows it, which Go allows on other
  targets, is not modelled.
\<close>

datatype f64 = Finite real | PosInf | NegInf | NaN

definition rhe :: "real \<Rightarrow> int" where
  "rhe y =
     (let f = \<lfloor>y\<rfloor>;
          d = y - of_int f
      in if d < 1 / 2 then f else if 1 / 2 < d then f + 1 else if even f then f else f + 1)"

definition quantum :: "real \<Rightarrow> int" where
  "quantum x = max (- 1074) (\<lfloor>log 2 \<bar>x\<bar>\<rfloor> - 52)"

definition round64 :: "real \<Rightarrow> real" where
  "round64 x = of_int (rhe (x / 2 powr of_int (quantum x))) * 2 powr of_int (quantum x)"

definition ovf :: "real \<Rightarrow> f64" where
  "ovf r = (if 2 ^ 1024 \<le> r then PosInf else if r \<le> - (2 ^ 1024) then NegInf else Finite r)"

text \<open>
  The operators \<open>*\<close>, \<open>+\<close>, \<open>/\<close> and \<open>==\<close> and \<open>math.Sqrt\<close>. In a division by zero the
  zero is read as +0.
\<close>

fun mul64 :: "f64 \<Rightarrow> f64 \<Rightarrow> f64" where
  "mul64 (Finite a) (Finite b) = ovf (round64 (a * b))"
| "mul64 NaN _ = NaN"
| "mul64 _ NaN = NaN"
| "mul64 (Finite a) PosInf = (if a = 0 then NaN else if 0 < a then PosInf else NegInf)"
| "mul64 (Finite a) NegInf = (if a = 0 then NaN else if 0 < a then NegInf else PosInf)"
| "mul64 PosInf (Finite b) = (if b = 0 then NaN else if 0 < b then PosInf else NegInf)"
| "mul64 NegInf (Finite b) = (if b = 0 then NaN else if 0 < b then NegInf else PosInf)"
| "mul64 PosInf PosInf = PosInf"
| "mul64 PosInf NegInf = NegInf"
| "mul64 NegInf PosInf = NegInf"
| "mul64 NegInf NegInf = PosInf"

fun add64 :: "f64 \<Rightarrow> f64 \<Rightarrow> f64" where
  "add64 (Finite a) (Finite b) = ovf (round64 (a + b))"
| "add64 NaN _ = NaN"
| "add64 _ NaN = NaN"
| "add64 PosInf NegInf = NaN"
| "add64 NegInf PosInf = NaN"
| "add64 PosInf _ = PosInf"
| "add64 _ PosInf = PosInf"
| "add64 NegInf _ = NegInf"
| "add64 _ NegInf = NegInf"

fun div64 :: "f64 \<Rightarrow> f64 \<Rightarrow> f64" where
  "div64 (Finite a) (Finite b) =
     (if b = 0 then (if a = 0 then NaN else if 0 < a then PosInf else NegInf)
      else ovf (round64 (a / b)))"
| "div64 NaN _ = NaN"
| "div64 _ NaN = NaN"
| "div64 (Finite a) _ = Finite 0"
| "div64 PosInf (Finite b) = (if 0 \<le> b then PosInf else NegInf)"
| "div64 NegInf (Finite b) = (if 0 \<le> b then NegInf else PosInf)"
| "div64 _ _ = NaN"

fun sqrt64 :: "f64 \<Rightarrow> f64" where
  "sqrt64 (Finite a) = (if a < 0 then NaN else Finite (round64 (sqrt a)))"
| "sqrt64 PosInf = PosInf"
| "sqrt64 NegInf = NaN"
| "sqrt64 NaN = NaN"

fun eq64 :: "f64 \<Rightarrow> f64 \<Rightarrow> bool" where
  "eq64 NaN _ = False"
| "eq64 _ NaN = False"
| "eq64 a b = (a = b)"

record Vec3_64 =
  X64 :: f64
  Y64 :: f64
  Z64 :: f64

text \<open>The zero value \<open>Vec3{}\<close>.\<close>

definition Vec3_64_zero :: Vec3_64 where
  "Vec3_64_zero = \<lparr>X64 = Finite 0, Y64 = Finite 0, Z64 = Finite 0\<rparr>"

definition DivScalar64 :: "Vec3_64 \<Rightarrow> f64 \<Rightarrow> Vec3_64" where
  "DivScalar64 v scalar =
     \<lparr>X64 = div64 (X64 v) scalar, Y64 = div64 (Y64 v) scalar, Z64 = div64 (Z64 v) scalar\<rparr>"

text \<open>\<open>FastSqrt\<close> just calls \<open>math.Sqrt\<close>.\<close>

definition FastSqrt64 :: "f64 \<Rightarrow> f64" where
  "FastSqrt64 x = sqrt64 x"

definition Length64 :: "Vec3_64 \<Rightarrow> f64" where
  "Length64 v =
     sqrt64 (add64 (add64 (mul64 (X64 v) (X64 v)) (mul64 (Y64 v) (Y64 v)))
                   (mul64 (Z64 v) (Z64 v)))"

definition FastLength64 :: "Vec3_64 \<Rightarrow> f64" where
  "FastLength64 v =
     FastSqrt64 (add64 (add64 (mul64 (X64 v) (X64 v)) (mul64 (Y64 v) (Y64 v)))
                       (mul64 (Z64 v) (Z64 v)))"

definition Normalize64 :: "Vec3_64 \<Rightarrow> Vec3_64" where
  "Normalize64 v =
     (let length = Length64 v in
      if eq64 length (Finite 0) then Vec3_64_zero else DivScalar64 v length)"

definition FastNormalize64 :: "Vec3_64 \<Rightarrow> Vec3_64" where
  "FastNormalize64 v =
     (let length = FastLength64 v in
      if eq64 length (Finite 0) then Vec3_64_zero else DivScalar64 v length)"

text \<open>
  Not in the source: a component whose square rounds to zero, a vector all of whose
  components are such, and the values that a sum of squares can take (zero, at least the
  least positive value \<open>2^-1074\<close>, +Inf or NaN).
\<close>

fun square_underflows :: "f64 \<Rightarrow> bool" where
  "square_underflows (Finite x) = (x * x \<le> 1 / 2 ^ 1075)"
| "square_underflows _ = False"

definition underflows :: "Vec3_64 \<Rightarrow> bool" where
  "underflows v =
     (square_underflows (X64 v) \<and> square_underflows (Y64 v) \<and> square_underflows (Z64 v))"

fun sum_of_squares :: "f64 \<Rightarrow> bool" where
  "sum_of_squares (Finite r) = (r = 0 \<or> 1 / 2 ^ 1074 \<le> r)"
| "sum_of_squares PosInf = True"
| "sum_of_squares NegInf = False"
| "sum_of_squares NaN = True"

section \<open>Rays, hit records and primitives (internal/geometry)\<close>

record Ray =
  Origin :: Vec3
  Direction :: Vec3

definition NewRay :: "Vec3 \<Rightarrow> Vec3 \<Rightarrow> Ray" where
  "NewRay origin direction = \<lparr>Origin = origin, Direction = direction\<rparr>"

definition At :: "Ray \<Rightarrow> real \<Rightarrow> Vec3" where
  "At r t = Add (Origin r) (MulScalar (Direction r) t)"

text \<open>
  An upper bound \<open>tMax\<close> of a ray interval: a finite number or \<open>math.Inf(1)\<close>, which
  \<open>traceRay\<close> passes. \<open>exceeds t tMax\<close> is the source's test \<open>t > tMax\<close>
  (written \<open>tMax < t\<close> in the sphere).
\<close>

datatype float_ub = Fin real | PInf

fun exceeds :: "real \<Rightarrow> float_ub \<Rightarrow> bool" where
  "exceeds t (Fin m) = (t > m)"
| "exceeds t PInf = False"

text \<open>
  \<open>HitRecord\<close>. The geometry package stores the material as an opaque \<open>interface{}\<close>;
  the model keeps it as a type parameter. The geometric fields form a record of their
  own because a material's \<open>Scatter\<close> reads only those.
\<close>

record HitGeom =
  T :: real
  Point :: Vec3
  Normal :: Vec3
  FrontFace :: bool

record 'm HitRecord = HitGeom +
  Material :: 'm

text \<open>
  The implementations of \<open>Hittable\<close> that a scene is made of: spheres, triangles (with
  three vertices and three vertex normals), planes, and the scene package's \<open>Mesh\<close>, a list
  of hittables.
\<close>

datatype 'm Hittable =
    Sphere Vec3 real 'm
  | Triangle Vec3 Vec3 Vec3 Vec3 Vec3 Vec3 'm
  | Plane Vec3 Vec3 'm
  | Mesh "'m Hittable list"

text \<open>The record a primitive returns once it has accepted the parameter \<open>t\<close>.\<close>

definition Sphere_record :: "Vec3 \<Rightarrow> real \<Rightarrow> 'm \<Rightarrow> Ray \<Rightarrow> real \<Rightarrow> 'm HitRecord" where
  "Sphere_record center radius material ray t =
     (let point = At ray t;
          outwardNormal = DivScalar (Sub point center) radius;
          frontFace = (Dot (Direction ray) outwardNormal < 0);
          normal = (if \<not> frontFace then MulScalar outwardNormal (- 1) else outwardNormal)
      in \<lparr>T = t, Point = point, Normal = normal, FrontFace = frontFace, Material = material\<rparr>)"

definition calculateInterpolatedNormal :: "Vec3 \<Rightarrow> Vec3 \<Rightarrow> Vec3 \<Rightarrow> real \<Rightarrow> real \<Rightarrow> Vec3" where
  "calculateInterpolatedNormal n0 n1 n2 u v =
     (let w = 1 - u - v;
          normal = Add (Add (MulScalar n0 w) (MulScalar n1 u)) (MulScalar n2 v)
      in Normalize normal)"

definition Triangle_record ::
  "Vec3 \<Rightarrow> Vec3 \<Rightarrow> Vec3 \<Rightarrow> 'm \<Rightarrow> Ray \<Rightarrow> real \<Rightarrow> real \<Rightarrow> real \<Rightarrow> 'm HitRecord" where
  "Triangle_record n0 n1 n2 material ray u v t_val =
     (let point = At ray t_val;
          normal = calculateInterpolatedNormal n0 n1 n2 u v;
          frontFace = (Dot (Direction ray) normal < 0);
          normal = (if \<not> frontFace then MulScalar normal (- 1) else normal)
      in \<lparr>T = t_val, Point = point, Normal = normal, FrontFace = frontFace,
          Material = material\<rparr>)"

definition Plane_record :: "Vec3 \<Rightarrow> 'm \<Rightarrow> Ray \<Rightarrow> real \<Rightarrow> 'm HitRecord" where
  "Plane_record pnormal material ray t =
     (let point = At ray t;
          frontFace = (Dot (Direction ray) pnormal < 0);
          normal = (if \<not> frontFace then MulScalar pnormal (- 1) else pnormal)
      in \<lparr>T = t, Point = point, Normal = normal, FrontFace = frontFace, Material = material\<rparr>)"

text \<open>
  \<open>Hit\<close> of each implementation. \<open>Mesh.Hit\<close> scans its list keeping the closest record
  and narrowing the upper bound to its \<open>T\<close>; \<open>Mesh_loop\<close> is that loop, with
  \<open>closestT\<close> and \<open>closestHit\<close> as its variables.
\<close>

fun Hit :: "'m Hittable \<Rightarrow> Ray \<Rightarrow> real \<Rightarrow> float_ub \<Rightarrow> 'm HitRecord option"
  and Mesh_loop ::
    "'m Hittable list \<Rightarrow> Ray \<Rightarrow> real \<Rightarrow> float_ub \<Rightarrow> 'm HitRecord option \<Rightarrow> 'm HitRecord option"
  where
  "Hit (Sphere center radius material) ray tMin tMax =
     (let oc = Sub (Origin ray) center;
          a = LengthSquared (Direction ray);
          halfB = Dot oc (Direction ray);
          c = LengthSquared oc - radius * radius;
          discriminant = halfB * halfB - a * c
      in if discriminant < 0 then None
         else
           let sqrtd = sqrt discriminant;
               root = (- halfB - sqrtd) / a
           in if root < tMin \<or> exceeds root tMax then
                (let root = (- halfB + sqrtd) / a
                 in if root < tMin \<or> exceeds root tMax then None
                    else Some (Sphere_record center radius material ray root))
              else Some (Sphere_record center radius material ray root))"
| "Hit (Triangle v0 v1 v2 n0 n1 n2 material) ray tMin tMax =
     (let edge1 = Sub v1 v0;
          edge2 = Sub v2 v0;
          h = Cross (Direction ray) edge2;
          a = Dot edge1 h
      in if a > - (1 / 10 ^ 6) \<and> a < 1 / 10 ^ 6 then None
         else
           let f = 1 / a;
               s = Sub (Origin ray) v0;
               u = f * Dot s h
           in if u < 0 \<or> u > 1 then None
              else
                let q = Cross s edge1;
                    v = f * Dot (Direction ray) q
                in if v < 0 \<or> u + v > 1 then None
                   else
                     let t_val = f * Dot edge2 q
                     in if t_val < tMin \<or> exceeds t_val tMax then None
                        else Some (Triangle_record n0 n1 n2 material ray u v t_val))"
| "Hit (Plane ppoint pnormal material) ray tMin tMax =
     (let denominator = Dot (Direction ray) pnormal
      in if denominator = 0 then None
         else
           let t = Dot (Sub ppoint (Origin ray)) pnormal / denominator
           in if t < tMin \<or> exceeds t tMax then None
              else Some (Plane_record pnormal material ray t))"
| "Hit (Mesh triangles) ray tMin tMax = Mesh_loop triangles ray tMin tMax None"
| "Mesh_loop [] ray tMin closestT closestHit = closestHit"
| "Mesh_loop (triangle # rest) ray tMin closestT closestHit =
     (case Hit triangle ray tMin closestT of
        Some hitRecord \<Rightarrow> Mesh_loop rest ray tMin (Fin (T hitRecord)) (Some hitRecord)
      | None \<Rightarrow> Mesh_loop rest ray tMin closestT closestHit)"

text \<open>\<open>Sphere.GetBoundingBox\<close>, which returns the two corners.\<close>

definition Sphere_GetBoundingBox :: "Vec3 \<Rightarrow> real \<Rightarrow> Vec3 \<times> Vec3" where
  "Sphere_GetBoundingBox center radius =
     (let radiusVec = \<lparr>X = radius, Y = radius, Z = radius\<rparr>
      in (Sub center radiusVec, Add center radiusVec))"

section \<open>The linear scan of the renderer (hitWorld)\<close>

fun hitWorld_loop ::
  "'m Hittable list \<Rightarrow> Ray \<Rightarrow> real \<Rightarrow> float_ub \<Rightarrow> 'm HitRecord option \<Rightarrow> 'm HitRecord option"
  where
  "hitWorld_loop [] ray tMin closestT closestHit = closestHit"
| "hitWorld_loop (hittable # rest) ray tMin closestT closestHit =
     (case Hit hittable ray tMin closestT of
        Some hitRecord \<Rightarrow> hitWorld_loop rest ray tMin (Fin (T hitRecord)) (Some hitRecord)
      | None \<Rightarrow> hitWorld_loop rest ray tMin closestT closestHit)"

definition hitWorld ::
  "Ray \<Rightarrow> 'm Hittable list \<Rightarrow> real \<Rightarrow> float_ub \<Rightarrow> 'm HitRecord option" where
  "hitWorld ray hittables tMin tMax = hitWorld_loop hittables ray tMin tMax None"

section \<open>Bounding volume hierarchy (optimization package)\<close>

record AABB =
  BoxMin :: Vec3
  BoxMax :: Vec3

definition surroundingBox :: "AABB \<Rightarrow> AABB \<Rightarrow> AABB" where
  "surroundingBox box0 box1 =
     \<lparr>BoxMin = \<lparr>X = FastMin (X (BoxMin box0)) (X (BoxMin box1)),
                Y = FastMin (Y (BoxMin box0)) (Y (BoxMin box1)),
                Z = FastMin (Z (BoxMin box0)) (Z (BoxMin box1))\<rparr>,
      BoxMax = \<lparr>X = FastMax (X (BoxMax box0)) (X (BoxMax box1)),
                Y = FastMax (Y (BoxMax box0)) (Y (BoxMax box1)),
                Z = FastMax (Z (BoxMax box0)) (Z (BoxMax box1))\<rparr>\<rparr>"

definition longestAxis :: "AABB \<Rightarrow> int" where
  "longestAxis box =
     (let extent = Sub (BoxMax box) (BoxMin box)
      in if X extent > Y extent \<and> X extent > Z extent then 0
         else if Y extent > Z extent then 1
         else 2)"

text \<open>
  A \<open>BVH\<close> struct is a leaf (\<open>IsLeaf\<close>, with \<open>Object\<close> and \<open>Box\<close>) or an inner node
  (\<open>Left\<close>, \<open>Right\<close>, \<open>Box\<close>).
\<close>

datatype 'm BVH =
    BVHLeaf "'m Hittable" AABB
  | BVHNode "'m BVH" "'m BVH" AABB

datatype error = IndexOutOfRange | StackOverflow | MakeChanSizeOutOfRange

text \<open>
  \<open>NewBVH(objects, start, end)\<close>. The method \<open>BoundingBox\<close> that it calls on a primitive is
  not among the sources (the geometry types only have \<open>GetBoundingBox\<close>), so it is the
  parameter \<open>bbox\<close>. Slice indexing panics outside \<open>0 \<le> i < len\<close>. With a valid \<open>start\<close>
  and \<open>end \<le> start\<close> no index fails and the first recursive call is made again with such a
  range, without end: Go stops that with a stack overflow, which the model returns as an
  error. The value of \<open>longestAxis\<close> is computed and dropped, as in the source.
\<close>

function NewBVH ::
  "('m Hittable \<Rightarrow> AABB) \<Rightarrow> 'm Hittable list \<Rightarrow> int \<Rightarrow> int \<Rightarrow> error + 'm BVH" where
  "NewBVH bbox objects start endi =
     (if endi - start = 1 then
        (if 0 \<le> start \<and> start < int (length objects)
         then Inr (BVHLeaf (objects ! nat start) (bbox (objects ! nat start)))
         else Inl IndexOutOfRange)
      else if \<not> (0 \<le> start \<and> start < int (length objects)) then Inl IndexOutOfRange
      else if int (length objects) < endi then Inl IndexOutOfRange
      else if endi \<le> start then Inl StackOverflow
      else
        let box = foldl (\<lambda>box i. surroundingBox box (bbox (objects ! nat i)))
                    (bbox (objects ! nat start)) [start + 1 .. endi - 1];
            axis = longestAxis box;
            mid = (start + endi) div 2
        in case NewBVH bbox objects start mid of
             Inl err \<Rightarrow> Inl err
           | Inr left \<Rightarrow>
               (case NewBVH bbox objects mid endi of
                  Inl err \<Rightarrow> Inl err
                | Inr right \<Rightarrow> Inr (BVHNode left right box)))"
  by pat_completeness auto
termination
  by (relation "measure (\<lambda>(bbox, objects, start, endi). nat (endi - start))") auto


section \<open>Blend weights of the integrator (renderer, traceRay)\<close>

text \<open>
  The tail of \<open>traceRay\<close> combines emitted, direct and reflected radiance with a pair of
  constants chosen by a chain of comparisons on the material's metallic value. The two
  local constants of each branch are \<open>reflectionWeight\<close> and \<open>directWeight\<close>; the final
  branch adds the three terms unscaled, that is with both weights equal to one.
\<close>

definition reflectionWeight :: "real \<Rightarrow> real" where
  "reflectionWeight metallic =
     (if metallic > 95 / 100 then 85 / 100
      else if metallic > 9 / 10 then 8 / 10
      else if metallic > 8 / 10 then 75 / 100
      else if metallic > 7 / 10 then 7 / 10
      else if metallic > 5 / 10 then 6 / 10
      else if metallic > 2 / 10 then 4 / 10
      else 1)"

definition directWeight :: "real \<Rightarrow> real" where
  "directWeight metallic =
     (if metallic > 95 / 100 then 15 / 100
      else if metallic > 9 / 10 then 2 / 10
      else if metallic > 8 / 10 then 25 / 100
      else if metallic > 7 / 10 then 3 / 10
      else if metallic > 5 / 10 then 4 / 10
      else if metallic > 2 / 10 then 6 / 10
      else 1)"

text \<open>The combination step itself, branch by branch as in the source.\<close>

definition combine :: "Vec3 \<Rightarrow> Vec3 \<Rightarrow> Vec3 \<Rightarrow> Vec3 \<Rightarrow> real \<Rightarrow> Vec3" where
  "combine emitted directLighting attenuation reflectedColor metallic =
     (if metallic > 95 / 100 then
        Add (Add emitted (MulScalar directLighting (15 / 100)))
            (MulScalar (Mul attenuation reflectedColor) (85 / 100))
      else if metallic > 9 / 10 then
        Add (Add emitted (MulScalar directLighting (2 / 10)))
            (MulScalar (Mul attenuation reflectedColor) (8 / 10))
      else if metallic > 8 / 10 then
        Add (Add emitted (MulScalar directLighting (25 / 100)))
            (MulScalar (Mul attenuation reflectedColor) (75 / 100))
      else if metallic > 7 / 10 then
        Add (Add emitted (MulScalar directLighting (3 / 10)))
            (MulScalar (Mul attenuation reflectedColor) (7 / 10))
      else if metallic > 5 / 10 then
        Add (Add emitted (MulScalar directLighting (4 / 10)))
            (MulScalar (Mul attenuation reflectedColor) (6 / 10))
      else if metallic > 2 / 10 then
        Add (Add emitted (MulScalar directLighting (6 / 10)))
            (MulScalar (Mul attenuation reflectedColor) (4 / 10))
      else Add (Add emitted directLighting) (Mul attenuation reflectedColor))"

section \<open>Auxiliary notions for the nearest-hit equivalence\<close>

text \<open>
  The notions below are not in the source; the statements and proofs about the two
  nearest-hit searches are phrased with them. \<open>ub_le\<close> orders upper bounds, \<open>keep u r\<close>
  drops a record whose \<open>T\<close> lies beyond \<open>u\<close>, and \<open>closer a b\<close> is the choice
  \<open>BVH.Hit\<close> makes between the results of its two children: the strictly smaller \<open>T\<close>
  wins and a tie goes to the second.
\<close>

fun ub_le :: "float_ub \<Rightarrow> float_ub \<Rightarrow> bool" where
  "ub_le (Fin a) (Fin b) = (a \<le> b)"
| "ub_le u PInf = True"
| "ub_le PInf (Fin b) = False"

definition keep :: "float_ub \<Rightarrow> 'm HitRecord option \<Rightarrow> 'm HitRecord option" where
  "keep u r = (case r of None \<Rightarrow> None | Some h \<Rightarrow> if exceeds (T h) u then None else Some h)"

definition closer :: "'m HitRecord option \<Rightarrow> 'm HitRecord option \<Rightarrow> 'm HitRecord option" where
  "closer a b =
     (case (a, b) of
        (Some ha, Some hb) \<Rightarrow> if T ha < T hb then Some ha else Some hb
      | (Some ha, None) \<Rightarrow> Some ha
      | (None, Some hb) \<Rightarrow> Some hb
      | (None, None) \<Rightarrow> None)"



definition contains :: "AABB \<Rightarrow> AABB \<Rightarrow> bool" where
  "contains outer inner \<longleftrightarrow>
     X (BoxMin outer) \<le> X (BoxMin inner) \<and> Y (BoxMin outer) \<le> Y (BoxMin inner) \<and>
     Z (BoxMin outer) \<le> Z (BoxMin inner) \<and>
     X (BoxMax inner) \<le> X (BoxMax outer) \<and> Y (BoxMax inner) \<le> Y (BoxMax outer) \<and>
     Z (BoxMax inner) \<le> Z (BoxMax outer)"



section \<open>Random numbers (internal/math/random.go)\<close>

text \<open>
  \<open>RandomFloat\<close> is \<open>rand.Float64()\<close> on the one generator of package \<open>math/rand\<close> that
  the whole process shares; \<open>init\<close> seeds it from the clock. The generator is a state
  \<open>'g\<close> and a function \<open>rnd\<close> from a state to the number drawn and the next state; every
  function that draws takes the state and returns the new one.
\<close>

definition RandomFloat :: "('g \<Rightarrow> real \<times> 'g) \<Rightarrow> 'g \<Rightarrow> real \<times> 'g" where
  "RandomFloat rnd s = rnd s"

definition RandomVec3 :: "('g \<Rightarrow> real \<times> 'g) \<Rightarrow> 'g \<Rightarrow> Vec3 \<times> 'g" where
  "RandomVec3 rnd s =
     (case RandomFloat rnd s of (x, s1) \<Rightarrow>
      case RandomFloat rnd s1 of (y, s2) \<Rightarrow>
      case RandomFloat rnd s2 of (z, s3) \<Rightarrow> (\<lparr>X = x, Y = y, Z = z\<rparr>, s3))"

text \<open>
  The rejection loop \<open>for { ... }\<close>: it returns the first point inside the unit sphere and
  does not return if the generator never produces one, which is the value \<open>None\<close>.
\<close>

partial_function (option) RandomVec3InUnitSphere ::
  "('g \<Rightarrow> real \<times> 'g) \<Rightarrow> 'g \<Rightarrow> (Vec3 \<times> 'g) option" where
  "RandomVec3InUnitSphere rnd s =
     (case RandomVec3 rnd s of (v, s') \<Rightarrow>
        let p = Sub (MulScalar v 2) \<lparr>X = 1, Y = 1, Z = 1\<rparr>
        in if LengthSquared p < 1 then Some (p, s') else RandomVec3InUnitSphere rnd s')"

section \<open>Materials (material package)\<close>

text \<open>
  The interface \<open>Material\<close> as the record of its methods. \<open>Scatter\<close> may draw random
  numbers (and then may not return), so it takes and returns the generator state; it reads
  the geometric part of the hit record. Two of the implementations follow.
\<close>

record 'g Material =
  Scatter :: "Ray \<Rightarrow> HitGeom \<Rightarrow> 'g \<Rightarrow> ((Ray \<times> Vec3 \<times> bool) \<times> 'g) option"
  Emitted :: Vec3
  GetAlbedo :: Vec3
  GetRoughness :: real
  GetMetallic :: real
  GetSpecular :: real

definition Lambertian :: "('g \<Rightarrow> real \<times> 'g) \<Rightarrow> Vec3 \<Rightarrow> 'g Material" where
  "Lambertian rnd albedo =
     \<lparr>Scatter = (\<lambda>ray hit s.
        case RandomVec3InUnitSphere rnd s of
          None \<Rightarrow> None
        | Some (v, s') \<Rightarrow>
            let scatterDirection = Add (Normal hit) v;
                scatterDirection =
                  (if NearZero scatterDirection then Normal hit else scatterDirection);
                scatterDirection = Normalize scatterDirection;
                scattered = NewRay (Point hit) scatterDirection
            in Some ((scattered, albedo, True), s')),
      Emitted = Vec3_zero,
      GetAlbedo = albedo,
      GetRoughness = 1,
      GetMetallic = 0,
      GetSpecular = 0\<rparr>"

definition DiffuseLight :: "Vec3 \<Rightarrow> 'g Material" where
  "DiffuseLight emit =
     \<lparr>Scatter = (\<lambda>ray hit s.
        Some ((\<lparr>Origin = Vec3_zero, Direction = Vec3_zero\<rparr>, Vec3_zero, False), s)),
      Emitted = emit,
      GetAlbedo = Vec3_zero,
      GetRoughness = 1,
      GetMetallic = 0,
      GetSpecular = 0\<rparr>"

section \<open>Scene (scene package)\<close>

text \<open>
  A light (its \<open>Type\<close> string is not read by the renderer), the camera, and what \<open>Render\<close>
  reads from a scene: the camera, \<open>GetHittables()\<close> and \<open>GetLights()\<close>.
\<close>

record Camera =
  Position :: Vec3
  LookAt :: Vec3
  Up :: Vec3
  FOV :: real
  AspectRatio :: real

record Light =
  Position :: Vec3
  Color :: Vec3
  Intensity :: real

record 'g Scene =
  SceneCamera :: Camera
  Hittables :: "'g Material Hittable list"
  Lights :: "Light list"

section \<open>The parallel renderer (renderer package)\<close>

text \<open>
  The renderer's configuration (\<open>benchmarkData\<close> is left out), a pixel and a tile result.
  Field names that would collide with variables or with fields of other records carry a
  prefix: \<open>px\<close>, \<open>py\<close>, \<open>pcolor\<close> for a pixel's \<open>x\<close>, \<open>y\<close>, \<open>color\<close>; \<open>resultPixels\<close>,
  \<open>resultStartX\<close>, \<open>resultStartY\<close> for a result's \<open>pixels\<close>, \<open>startX\<close>, \<open>startY\<close>; and
  \<open>taskWidth\<close>, \<open>taskHeight\<close>, \<open>taskCamera\<close> for a task's \<open>width\<close>, \<open>height\<close>, \<open>camera\<close>.
\<close>

record ParallelRenderer =
  numWorkers :: int
  maxDepth :: int
  samples :: int
  antiAliasing :: bool
  recursiveReflections :: bool
  softShadows :: bool
  depthOfField :: bool

definition NewParallelRenderer :: "int \<Rightarrow> ParallelRenderer" where
  "NewParallelRenderer n =
     \<lparr>numWorkers = n, maxDepth = 50, samples = 100, antiAliasing = True,
      recursiveReflections = True, softShadows = True, depthOfField = False\<rparr>"

record Pixel =
  px :: int
  py :: int
  pcolor :: Vec3

record RenderResult =
  resultPixels :: "Pixel list"
  resultStartX :: int
  resultStartY :: int

text \<open>
  Go's \<open>int\<close> is 64 bits wide here; \<open>wrap64\<close> is the value an arithmetic result wraps to,
  and \<open>sdiv\<close> is Go's division, which truncates towards zero.
\<close>

definition wrap64 :: "int \<Rightarrow> int" where
  "wrap64 i = (i + 2 ^ 63) mod 2 ^ 64 - 2 ^ 63"

record RenderTask =
  startX :: int
  startY :: int
  endX :: int
  endY :: int
  taskWidth :: int
  taskHeight :: int
  taskCamera :: Camera

text \<open>
  \<open>createRenderTasks\<close>: the tasks in the order in which the producer sends them on the
  channel. The locals \<open>sX\<close>, \<open>sY\<close>, \<open>eX\<close>, \<open>eY\<close> are the source's \<open>startX\<close>, \<open>startY\<close>,
  \<open>endX\<close>, \<open>endY\<close>.
\<close>

definition createRenderTasks :: "int \<Rightarrow> int \<Rightarrow> Camera \<Rightarrow> RenderTask list" where
  "createRenderTasks width height camera =
     (let tileSize = 32;
          numTilesX = wrap64 (wrap64 (width + tileSize) - 1) sdiv tileSize;
          numTilesY = wrap64 (wrap64 (height + tileSize) - 1) sdiv tileSize
      in concat (map (\<lambda>y. map (\<lambda>x.
           let sX = wrap64 (x * tileSize);
               sY = wrap64 (y * tileSize);
               eX = wrap64 (sX + tileSize);
               eX = (if eX > width then width else eX);
               eY = wrap64 (sY + tileSize);
               eY = (if eY > height then height else eY)
           in \<lparr>startX = sX, startY = sY, endX = eX, endY = eY,
               taskWidth = width, taskHeight = height, taskCamera = camera\<rparr>)
         [0 .. numTilesX - 1]) [0 .. numTilesY - 1]))"

text \<open>The pixel coordinates that the two loops of \<open>renderTile\<close> visit, in their order.\<close>

definition tilePixels :: "RenderTask \<Rightarrow> (int \<times> int) list" where
  "tilePixels task =
     concat (map (\<lambda>y. map (\<lambda>x. (x, y)) [startX task .. endX task - 1])
       [startY task .. endY task - 1])"

definition skyColor :: "Ray \<Rightarrow> Vec3" where
  "skyColor ray = \<lparr>X = 1 / 10, Y = 1 / 10, Z = 1 / 10\<rparr>"

text \<open>
  \<open>calculateSmartShadow\<close>: zero when the shadow ray hits anything before the light;
  otherwise, with soft shadows, the fraction of 16 jittered shadow rays that reach the
  light. \<open>softShadow_loop\<close> is that loop, counting down the iterations left.
\<close>

fun softShadow_loop ::
  "('g \<Rightarrow> real \<times> 'g) \<Rightarrow> Vec3 \<Rightarrow> Vec3 \<Rightarrow> real \<Rightarrow> 'm Hittable list \<Rightarrow> nat \<Rightarrow> real \<Rightarrow> 'g
   \<Rightarrow> (real \<times> 'g) option" where
  "softShadow_loop rnd point lightDir lightDistance hittables 0 shadowSum s = Some (shadowSum, s)"
| "softShadow_loop rnd point lightDir lightDistance hittables (Suc n) shadowSum s =
     (case RandomVec3InUnitSphere rnd s of
        None \<Rightarrow> None
      | Some (v, s') \<Rightarrow>
          let randomOffset = MulScalar v (1 / 10);
              softLightDir = Normalize (Add lightDir randomOffset);
              softShadowRay = NewRay point softLightDir
          in case hitWorld softShadowRay hittables (1 / 1000) (Fin lightDistance) of
               None \<Rightarrow>
                 softShadow_loop rnd point lightDir lightDistance hittables n (shadowSum + 1) s'
             | Some softHit \<Rightarrow>
                 softShadow_loop rnd point lightDir lightDistance hittables n shadowSum s')"

definition calculateSmartShadow ::
  "('g \<Rightarrow> real \<times> 'g) \<Rightarrow> ParallelRenderer \<Rightarrow> 'm HitRecord \<Rightarrow> Light \<Rightarrow> 'm Hittable list \<Rightarrow> 'g
   \<Rightarrow> (real \<times> 'g) option" where
  "calculateSmartShadow rnd R hit light hittables s =
     (let lightDir = Normalize (Sub (Light.Position light) (Point hit));
          lightDistance = Length (Sub (Light.Position light) (Point hit));
          shadowRay = NewRay (Point hit) lightDir
      in case hitWorld shadowRay hittables (1 / 1000) (Fin lightDistance) of
           Some hitShadow \<Rightarrow> Some (0, s)
         | None \<Rightarrow>
             if softShadows R then
               (case softShadow_loop rnd (Point hit) lightDir lightDistance hittables 16 0 s of
                  None \<Rightarrow> None
                | Some (shadowSum, s') \<Rightarrow> Some (shadowSum / 16, s'))
             else Some (1, s))"

text \<open>
  \<open>calculateDirectLighting\<close>. The constants that the source picks by comparisons on the
  metallic value are the functions \<open>ambientStrength\<close>, \<open>diffuseStrength\<close> and
  \<open>specularPower\<close> (the exponent of \<open>math.Pow\<close>, a whole number); \<open>lightStep\<close> is the body of
  the loop over the lights, from the accumulated \<open>totalLighting\<close> to the new one.
\<close>

definition ambientStrength :: "real \<Rightarrow> real" where
  "ambientStrength metallic =
     (if metallic > 9 / 10 then 5 / 100
      else if metallic > 7 / 10 then 7 / 100
      else if metallic > 5 / 10 then 8 / 100
      else 1 / 10)"

definition diffuseStrength :: "real \<Rightarrow> real" where
  "diffuseStrength metallic =
     (if metallic > 95 / 100 then 5 / 100
      else if metallic > 9 / 10 then 8 / 100
      else if metallic > 8 / 10 then 12 / 100
      else if metallic > 7 / 10 then 15 / 100
      else if metallic > 5 / 10 then 2 / 10
      else 25 / 100)"

definition specularPower :: "real \<Rightarrow> nat" where
  "specularPower metallic =
     (if metallic > 9 / 10 then 64
      else if metallic > 8 / 10 then 48
      else 32)"

definition lightStep ::
  "('g \<Rightarrow> real \<times> 'g) \<Rightarrow> ParallelRenderer \<Rightarrow> 'm HitRecord \<Rightarrow> 'm Hittable list \<Rightarrow> Vec3 \<Rightarrow> real
   \<Rightarrow> Vec3 \<Rightarrow> Light \<Rightarrow> 'g \<Rightarrow> (Vec3 \<times> 'g) option" where
  "lightStep rnd R hit hittables albedo metallic totalLighting light s =
     (let lightDir = Normalize (Sub (Light.Position light) (Point hit));
          lightDistance = Length (Sub (Light.Position light) (Point hit))
      in if lightDistance < 1 / 1000 then Some (totalLighting, s)
         else
           case calculateSmartShadow rnd R hit light hittables s of
             None \<Rightarrow> None
           | Some (shadowFactor, s') \<Rightarrow>
               if shadowFactor > 0 then
                 let cosTheta = max 0 (Dot (Normal hit) lightDir);
                     intensity = cosTheta * Intensity light / (lightDistance * lightDistance);
                     diffuse = MulScalar albedo (diffuseStrength metallic * intensity * shadowFactor);
                     totalLighting = Add totalLighting diffuse
                 in if metallic > 5 / 10 then
                      let viewDir = Normalize (MulScalar (Point hit) (- 1));
                          halfDir = Normalize (Add lightDir viewDir);
                          specularIntensity =
                            (max 0 (Dot (Normal hit) halfDir)) ^ specularPower metallic;
                          specular = MulScalar (Color light)
                            (specularIntensity * intensity * shadowFactor * metallic * 3)
                      in Some (Add totalLighting specular, s')
                    else Some (totalLighting, s')
               else Some (totalLighting, s'))"

fun lights_loop ::
  "('g \<Rightarrow> real \<times> 'g) \<Rightarrow> ParallelRenderer \<Rightarrow> 'm HitRecord \<Rightarrow> 'm Hittable list \<Rightarrow> Vec3 \<Rightarrow> real
   \<Rightarrow> Light list \<Rightarrow> Vec3 \<Rightarrow> 'g \<Rightarrow> (Vec3 \<times> 'g) option" where
  "lights_loop rnd R hit hittables albedo metallic [] totalLighting s = Some (totalLighting, s)"
| "lights_loop rnd R hit hittables albedo metallic (light # rest) totalLighting s =
     (case lightStep rnd R hit hittables albedo metallic totalLighting light s of
        None \<Rightarrow> None
      | Some (totalLighting', s') \<Rightarrow>
          lights_loop rnd R hit hittables albedo metallic rest totalLighting' s')"

definition calculateDirectLighting ::
  "('g \<Rightarrow> real \<times> 'g) \<Rightarrow> ParallelRenderer \<Rightarrow> 'g Material HitRecord \<Rightarrow> 'g Material Hittable list
   \<Rightarrow> Light list \<Rightarrow> 'g \<Rightarrow> (Vec3 \<times> 'g) option" where
  "calculateDirectLighting rnd R hit hittables lights s =
     (let totalLighting = Vec3_zero;
          material = Material hit;
          albedo = GetAlbedo material;
          metallic = GetMetallic material;
          ambientLight = \<lparr>X = ambientStrength metallic, Y = ambientStrength metallic,
                          Z = ambientStrength metallic\<rparr>;
          totalLighting = Add totalLighting ambientLight
      in lights_loop rnd R hit hittables albedo metallic lights totalLighting s)"

text \<open>
  \<open>traceRay\<close>. The hit record's material is a \<open>material.Material\<close> for every primitive the
  scene loader builds, so the type assertion is not modelled as a failure.
\<close>

function traceRay ::
  "('g \<Rightarrow> real \<times> 'g) \<Rightarrow> ParallelRenderer \<Rightarrow> Ray \<Rightarrow> 'g Material Hittable list \<Rightarrow> Light list
   \<Rightarrow> int \<Rightarrow> 'g \<Rightarrow> (Vec3 \<times> 'g) option" where
  "traceRay rnd R ray hittables lights depth s =
     (if depth \<ge> maxDepth R then Some (Vec3_zero, s)
      else
        case hitWorld ray hittables (1 / 1000) PInf of
          None \<Rightarrow> Some (\<lparr>X = 0, Y = 0, Z = 0\<rparr>, s)
        | Some hitRecord \<Rightarrow>
            (case calculateDirectLighting rnd R hitRecord hittables lights s of
               None \<Rightarrow> None
             | Some (directLighting, s1) \<Rightarrow>
                 (case Scatter (Material hitRecord) ray (HitGeom.truncate hitRecord) s1 of
                    None \<Rightarrow> None
                  | Some ((scattered, attenuation, scatteredHit), s2) \<Rightarrow>
                      if \<not> scatteredHit
                      then Some (Add (Emitted (Material hitRecord)) directLighting, s2)
                      else
                        (case (if recursiveReflections R
                               then traceRay rnd R scattered hittables lights (depth + 1) s2
                               else Some (Vec3_zero, s2)) of
                           None \<Rightarrow> None
                         | Some (reflectedColor, s3) \<Rightarrow>
                             Some (combine (Emitted (Material hitRecord)) directLighting
                                     attenuation reflectedColor
                                     (GetMetallic (Material hitRecord)), s3)))))"
  by pat_completeness auto
termination
  by (relation "measure (\<lambda>(rnd, R, ray, hittables, lights, depth, s). nat (maxDepth R - depth))")
    auto

declare traceRay.simps [simp del]

definition getRay :: "real \<Rightarrow> real \<Rightarrow> Camera \<Rightarrow> Ray" where
  "getRay u v camera =
     (let viewportHeight = 2;
          viewportWidth = viewportHeight * AspectRatio camera;
          focalLength = 1;
          origin = Camera.Position camera;
          horizontal = \<lparr>X = viewportWidth, Y = 0, Z = 0\<rparr>;
          vertical = \<lparr>X = 0, Y = viewportHeight, Z = 0\<rparr>;
          lowerLeftCorner =
            Sub (Sub (Sub origin (DivScalar horizontal 2)) (DivScalar vertical 2))
              \<lparr>X = 0, Y = 0, Z = focalLength\<rparr>;
          direction =
            Sub (Add (Add lowerLeftCorner (MulScalar horizontal u)) (MulScalar vertical v)) origin
      in NewRay origin direction)"

text \<open>\<open>tracePixel\<close>: the loop over the samples, then the division by their number.\<close>

fun tracePixel_loop ::
  "('g \<Rightarrow> real \<times> 'g) \<Rightarrow> ParallelRenderer \<Rightarrow> int \<Rightarrow> int \<Rightarrow> int \<Rightarrow> int \<Rightarrow> Camera
   \<Rightarrow> 'g Material Hittable list \<Rightarrow> Light list \<Rightarrow> nat \<Rightarrow> Vec3 \<Rightarrow> 'g \<Rightarrow> (Vec3 \<times> 'g) option" where
  "tracePixel_loop rnd R x y width height camera hittables lights 0 color s = Some (color, s)"
| "tracePixel_loop rnd R x y width height camera hittables lights (Suc n) color s =
     (case RandomFloat rnd s of (r1, s1) \<Rightarrow>
        let u = (real_of_int x + r1) / real_of_int width
        in case RandomFloat rnd s1 of (r2, s2) \<Rightarrow>
             let v = (real_of_int y + r2) / real_of_int height;
                 ray = getRay u v camera
             in case traceRay rnd R ray hittables lights 0 s2 of
                  None \<Rightarrow> None
                | Some (c, s3) \<Rightarrow>
                    tracePixel_loop rnd R x y width height camera hittables lights n
                      (Add color c) s3)"

definition tracePixel ::
  "('g \<Rightarrow> real \<times> 'g) \<Rightarrow> ParallelRenderer \<Rightarrow> int \<Rightarrow> int \<Rightarrow> int \<Rightarrow> int \<Rightarrow> Camera
   \<Rightarrow> 'g Material Hittable list \<Rightarrow> Light list \<Rightarrow> 'g \<Rightarrow> (Vec3 \<times> 'g) option" where
  "tracePixel rnd R x y width height camera hittables lights s =
     (case tracePixel_loop rnd R x y width height camera hittables lights (nat (samples R))
             Vec3_zero s of
        None \<Rightarrow> None
      | Some (color, s') \<Rightarrow> Some (DivScalar color (real_of_int (samples R)), s'))"

fun renderTile_loop ::
  "('g \<Rightarrow> real \<times> 'g) \<Rightarrow> ParallelRenderer \<Rightarrow> RenderTask \<Rightarrow> 'g Material Hittable list \<Rightarrow> Light list
   \<Rightarrow> (int \<times> int) list \<Rightarrow> Pixel list \<Rightarrow> 'g \<Rightarrow> (Pixel list \<times> 'g) option" where
  "renderTile_loop rnd R task hittables lights [] pixels s = Some (pixels, s)"
| "renderTile_loop rnd R task hittables lights ((x, y) # rest) pixels s =
     (case tracePixel rnd R x y (taskWidth task) (taskHeight task) (taskCamera task)
             hittables lights s of
        None \<Rightarrow> None
      | Some (color, s') \<Rightarrow>
          renderTile_loop rnd R task hittables lights rest
            (pixels @ [\<lparr>px = x, py = y, pcolor = color\<rparr>]) s')"

definition renderTile ::
  "('g \<Rightarrow> real \<times> 'g) \<Rightarrow> ParallelRenderer \<Rightarrow> RenderTask \<Rightarrow> 'g Material Hittable list \<Rightarrow> Light list
   \<Rightarrow> 'g \<Rightarrow> (Pixel list \<times> 'g) option" where
  "renderTile rnd R task hittables lights s =
     renderTile_loop rnd R task hittables lights (tilePixels task) [] s"

text \<open>One worker draining the task queue: a tile is rendered and its result sent.\<close>

fun worker ::
  "('g \<Rightarrow> real \<times> 'g) \<Rightarrow> ParallelRenderer \<Rightarrow> RenderTask list \<Rightarrow> 'g Material Hittable list
   \<Rightarrow> Light list \<Rightarrow> RenderResult list \<Rightarrow> 'g \<Rightarrow> (RenderResult list \<times> 'g) option" where
  "worker rnd R [] hittables lights results s = Some (results, s)"
| "worker rnd R (task # tasks) hittables lights results s =
     (case renderTile rnd R task hittables lights s of
        None \<Rightarrow> None
      | Some (pixels, s') \<Rightarrow>
          worker rnd R tasks hittables lights
            (results @ [\<lparr>resultPixels = pixels, resultStartX = startX task,
                          resultStartY = startY task\<rparr>]) s')"

text \<open>
  What the aggregation loop does with a pixel: tone mapping, conversion to bytes, and the
  call \<open>img.Set(x, y, RGBA{r, g, b, 255})\<close>, recorded as the tuple of its arguments.
\<close>

definition toneMap :: "Vec3 \<Rightarrow> Vec3" where
  "toneMap color =
     (let exposure = 1;
          gamma = 22 / 10;
          color = MulScalar color exposure;
          color = \<lparr>X = 1 - exp (- X color), Y = 1 - exp (- Y color), Z = 1 - exp (- Z color)\<rparr>;
          color = \<lparr>X = X color powr (1 / gamma), Y = Y color powr (1 / gamma),
                   Z = Z color powr (1 / gamma)\<rparr>;
          color = \<lparr>X = max 0 (min 1 (X color)), Y = max 0 (min 1 (Y color)),
                   Z = max 0 (min 1 (Z color))\<rparr>
      in color)"

definition Clamp :: "Vec3 \<Rightarrow> real \<Rightarrow> real \<Rightarrow> Vec3" where
  "Clamp v lo hi =
     \<lparr>X = max lo (min hi (X v)), Y = max lo (min hi (Y v)), Z = max lo (min hi (Z v))\<rparr>"

definition ToRGB :: "Vec3 \<Rightarrow> nat \<times> nat \<times> nat" where
  "ToRGB v =
     (let clamped = Clamp v 0 1
      in (nat \<lfloor>X clamped * 255\<rfloor>, nat \<lfloor>Y clamped * 255\<rfloor>, nat \<lfloor>Z clamped * 255\<rfloor>))"

definition imgSet :: "Pixel \<Rightarrow> int \<times> int \<times> nat \<times> nat \<times> nat \<times> nat" where
  "imgSet pixel =
     (let mappedColor = toneMap (pcolor pixel)
      in case ToRGB mappedColor of (r, g, b) \<Rightarrow> (px pixel, py pixel, r, g, b, 255))"

text \<open>
  \<open>Render\<close>, as the list of \<open>img.Set\<close> calls it makes. \<open>make(chan, n)\<close> panics for a
  negative \<open>n\<close> (capacities too large to allocate are not modelled, nor is the allocation of
  the image). With no worker nothing is consumed, the result channel is closed at once and
  the image is returned untouched. Otherwise the model runs the tiles in queue order, as a
  single worker does; the pool of several workers is given step by step in the next
  section.
\<close>

definition Render ::
  "('g \<Rightarrow> real \<times> 'g) \<Rightarrow> ParallelRenderer \<Rightarrow> 'g Scene \<Rightarrow> int \<Rightarrow> int \<Rightarrow> 'g
   \<Rightarrow> ((error + (int \<times> int \<times> nat \<times> nat \<times> nat \<times> nat) list) \<times> 'g) option" where
  "Render rnd R scene width height s =
     (let camera = SceneCamera scene;
          hittables = Hittables scene;
          lights = Lights scene
      in if wrap64 (numWorkers R * 4) < 0 \<or> wrap64 (numWorkers R * 2) < 0
         then Some (Inl MakeChanSizeOutOfRange, s)
         else if numWorkers R \<le> 0 then Some (Inr [], s)
         else
           case worker rnd R (createRenderTasks width height camera) hittables lights [] s of
             None \<Rightarrow> None
           | Some (results, s') \<Rightarrow>
               Some (Inr (concat (map (\<lambda>result. map imgSet (resultPixels result)) results)), s'))"

section \<open>The worker pool, step by step (renderer package)\<close>

text \<open>
  \<open>Render\<close> starts \<open>numWorkers\<close> goroutines that run \<open>worker\<close>. They share the task
  channel, the result channel and the one generator behind \<open>RandomFloat\<close>; a worker has
  no generator and no seed of its own. In the pool below a worker is idle, or it holds a
  tile together with the pixels of the tile still to be traced and the pixels traced so
  far. A step of worker \<open>i\<close> is one of: receive the next task (the channel delivers the
  tasks in the order in which \<open>createRenderTasks\<close> sent them), trace the next pixel of its
  tile, with all draws made from the shared generator, or send the finished tile. There is
  no step when \<open>i\<close> is not a worker, when the worker is idle and no task is left, or when
  the trace of the pixel does not return. A schedule is the list of the workers that step,
  in order. The goroutines interleave at every single draw; the schedules here, in which
  a pixel is traced without interruption, are some of the possible ones.
\<close>

datatype WorkerState = Idle | Busy RenderTask "(int \<times> int) list" "Pixel list"

record 'g pool =
  pending :: "RenderTask list"
  workers :: "WorkerState list"
  sent :: "RenderResult list"
  gen :: 'g

definition pool_step ::
  "('g \<Rightarrow> real \<times> 'g) \<Rightarrow> ParallelRenderer \<Rightarrow> 'g Material Hittable list \<Rightarrow> Light list
   \<Rightarrow> nat \<Rightarrow> 'g pool \<Rightarrow> 'g pool option" where
  "pool_step rnd R hittables lights i p =
     (if length (workers p) \<le> i then None
      else case workers p ! i of
        Idle \<Rightarrow>
          (case pending p of
             [] \<Rightarrow> None
           | task # tasks \<Rightarrow>
               Some (p\<lparr>pending := tasks,
                       workers := (workers p)[i := Busy task (tilePixels task) []]\<rparr>))
      | Busy task [] pixels \<Rightarrow>
          Some (p\<lparr>workers := (workers p)[i := Idle],
                  sent := sent p @ [\<lparr>resultPixels = pixels, resultStartX = startX task,
                                      resultStartY = startY task\<rparr>]\<rparr>)
      | Busy task ((x, y) # rest) pixels \<Rightarrow>
          (case tracePixel rnd R x y (taskWidth task) (taskHeight task) (taskCamera task)
                  hittables lights (gen p) of
             None \<Rightarrow> None
           | Some (color, s') \<Rightarrow>
               Some (p\<lparr>workers := (workers p)[i := Busy task rest
                                        (pixels @ [\<lparr>px = x, py = y, pcolor = color\<rparr>])],
                       gen := s'\<rparr>)))"

fun pool_run ::
  "('g \<Rightarrow> real \<times> 'g) \<Rightarrow> ParallelRenderer \<Rightarrow> 'g Material Hittable list \<Rightarrow> Light list
   \<Rightarrow> nat list \<Rightarrow> 'g pool \<Rightarrow> 'g pool option" where
  "pool_run rnd R hittables lights [] p = Some p"
| "pool_run rnd R hittables lights (i # sched) p =
     (case pool_step rnd R hittables lights i p of
        None \<Rightarrow> None
      | Some p' \<Rightarrow> pool_run rnd R hittables lights sched p')"

text \<open>
  The pool when \<open>Render\<close> has started its workers, and the pool when they have all
  returned: the task channel is drained and nobody holds a tile.
\<close>

definition pool_start :: "ParallelRenderer \<Rightarrow> RenderTask list \<Rightarrow> 'g \<Rightarrow> 'g pool" where
  "pool_start R tasks s =
     \<lparr>pending = tasks, workers = replicate (nat (numWorkers R)) Idle, sent = [], gen = s\<rparr>"

definition pool_finished :: "'g pool \<Rightarrow> bool" where
  "pool_finished p = (pending p = [] \<and> list_all (\<lambda>w. w = Idle) (workers p))"

text \<open>
  Not in the source: what a single worker in state \<open>w\<close> still produces when it carries on
  alone from the pool \<open>p\<close>.
\<close>

fun pool_complete ::
  "('g \<Rightarrow> real \<times> 'g) \<Rightarrow> ParallelRenderer \<Rightarrow> 'g Material Hittable list \<Rightarrow> Light list
   \<Rightarrow> WorkerState \<Rightarrow> 'g pool \<Rightarrow> (RenderResult list \<times> 'g) option" where
  "pool_complete rnd R hittables lights Idle p =
     worker rnd R (pending p) hittables lights (sent p) (gen p)"
| "pool_complete rnd R hittables lights (Busy task rest pixels) p =
     (case renderTile_loop rnd R task hittables lights rest pixels (gen p) of
        None \<Rightarrow> None
      | Some (pixels', s') \<Rightarrow>
          worker rnd R (pending p) hittables lights
            (sent p @ [\<lparr>resultPixels = pixels', resultStartX = startX task,
                         resultStartY = startY task\<rparr>]) s')"

section \<open>Auxiliary notions for the tile grid\<close>

text \<open>
  Not in the source: the number of tiles along one side, the task of the tile in row \<open>y\<close>
  and column \<open>x\<close>, and the grid of all tasks, all without wrap-around.
\<close>

definition numTiles :: "int \<Rightarrow> int" where
  "numTiles w = (if w \<le> 0 then 0 else (w + 31) div 32)"

definition mkTask :: "int \<Rightarrow> int \<Rightarrow> Camera \<Rightarrow> int \<Rightarrow> int \<Rightarrow> RenderTask" where
  "mkTask width height camera y x =
     \<lparr>startX = 32 * x, startY = 32 * y, endX = min (32 * x + 32) width,
      endY = min (32 * y + 32) height,
      taskWidth = width, taskHeight = height, taskCamera = camera\<rparr>"

definition tileGrid :: "int \<Rightarrow> int \<Rightarrow> Camera \<Rightarrow> RenderTask list" where
  "tileGrid width height camera =
     concat (map (\<lambda>y. map (mkTask width height camera y) [0 .. numTiles width - 1])
       [0 .. numTiles height - 1])"

text \<open>The pixel that an \<open>img.Set\<close> call addresses.\<close>

definition coord :: "int \<times> int \<times> nat \<times> nat \<times> nat \<times> nat \<Rightarrow> int \<times> int" where
  "coord w = (fst w, fst (snd w))"

section \<open>An example: two tiles and a luminous floor\<close>

text \<open>
  Used for the two schedules further below: a generator that counts its draws and yields
  1/4 at its second draw and 3/4 at every other one; a camera at the origin; a renderer
  with \<open>k\<close> workers and one sample per pixel (\<open>SetSamples\<close>); and a horizontal plane one
  unit below the camera with an emissive material.
\<close>

definition ex_rnd :: "nat \<Rightarrow> real \<times> nat" where
  "ex_rnd n = (if n = 1 then 1 / 4 else 3 / 4, Suc n)"

definition ex_camera :: Camera where
  "ex_camera = \<lparr>Camera.Position = Vec3_zero, LookAt = \<lparr>X = 0, Y = 0, Z = - 1\<rparr>,
           Up = \<lparr>X = 0, Y = 1, Z = 0\<rparr>, FOV = 90, AspectRatio = 1\<rparr>"

definition ex_renderer :: "int \<Rightarrow> ParallelRenderer" where
  "ex_renderer k = NewParallelRenderer k\<lparr>samples := 1\<rparr>"

definition ex_floor :: "nat Material Hittable list" where
  "ex_floor = [Plane \<lparr>X = 0, Y = - 1, Z = 0\<rparr> \<lparr>X = 0, Y = 1, Z = 0\<rparr> (DiffuseLight \<lparr>X = 1, Y = 1, Z = 1\<rparr>)]"

section \<open>Properties\<close>

subsection \<open>Normalising a vector\<close>

lemma rhe_eq_0_iff: "rhe y = 0 \<longleftrightarrow> \<bar>y\<bar> \<le> 1 / 2"
proof -
  have f: "of_int \<lfloor>y\<rfloor> \<le> y" "y < of_int \<lfloor>y\<rfloor> + 1" by linarith+
  show ?thesis
  proof (cases "\<lfloor>y\<rfloor> = 0")
    case True
    with f show ?thesis by (auto simp: rhe_def Let_def)
  next
    case False
    note nz = this
    show ?thesis
    proof (cases "\<lfloor>y\<rfloor> = - 1")
      case True
      with f show ?thesis by (auto simp: rhe_def Let_def)
    next
      case False
      with nz have "\<lfloor>y\<rfloor> \<le> - 2 \<or> 1 \<le> \<lfloor>y\<rfloor>" by linarith
      then have "\<bar>y\<bar> > 1/2" using f by (auto; linarith)
      moreover have "rhe y \<noteq> 0" using nz False by (auto simp: rhe_def Let_def)
      ultimately show ?thesis by simp
    qed
  qed
qed

lemma rhe_nonneg: "0 \<le> y \<Longrightarrow> 0 \<le> rhe y"
  by (auto simp: rhe_def Let_def)

lemma powr_neg_int: "2 powr of_int (- int n) = (1 / 2 ^ n :: real)"
proof -
  have "2 powr of_int (- int n) = (2::real) powr (- real n)" by simp
  also have "\<dots> = inverse (2 powr real n)" by (rule powr_minus)
  also have "2 powr real n = (2::real) ^ n" by (rule powr_realpow) simp
  finally show ?thesis by (simp add: divide_inverse)
qed

lemma p1074: "2 powr of_int (- 1074) = (1 / 2 ^ 1074 :: real)"
  using powr_neg_int[of 1074] by simp

lemma quantum_ge: "- 1074 \<le> quantum x" by (simp add: quantum_def)

lemma round64_eq_0_iff: "round64 x = 0 \<longleftrightarrow> \<bar>x\<bar> \<le> 1 / 2 ^ 1075"
proof (cases "x = 0")
  case True
  then show ?thesis by (simp add: round64_def rhe_eq_0_iff)
next
  case False
  define L where "L = \<lfloor>log 2 \<bar>x\<bar>\<rfloor>"
  define q where "q = quantum x"
  have pos: "0 < \<bar>x\<bar>" using False by simp
  have "of_int L \<le> log 2 \<bar>x\<bar>" unfolding L_def by linarith
  then have "2 powr of_int L \<le> 2 powr log 2 \<bar>x\<bar>" by simp
  then have lo: "2 powr of_int L \<le> \<bar>x\<bar>" using pos by simp
  have qpos: "0 < (2::real) powr of_int q" by simp
  have a: "round64 x = 0 \<longleftrightarrow> \<bar>x\<bar> \<le> 2 powr of_int q / 2"
    unfolding round64_def q_def[symmetric]
    using qpos by (simp add: rhe_eq_0_iff abs_divide pos_divide_le_eq)
  show ?thesis
  proof (cases "- 1074 \<le> L - 52")
    case True
    then have q: "q = L - 52" by (simp add: q_def quantum_def L_def)
    have "(2::real) powr of_int q < 2 powr of_int L" unfolding q by simp
    with lo have n1: "\<not> \<bar>x\<bar> \<le> 2 powr of_int q / 2" using qpos by linarith
    from True have "(2::real) powr of_int (- 1022) \<le> 2 powr of_int L" by simp
    moreover have "(2::real) powr of_int (- 1022) = 1 / 2 ^ 1022" using powr_neg_int[of 1022] by simp
    moreover have "(1 / 2 ^ 1075 :: real) < 1 / 2 ^ 1022" by simp
    ultimately have "\<not> \<bar>x\<bar> \<le> 1 / 2 ^ 1075" using lo by linarith
    with a n1 show ?thesis by simp
  next
    case False
    then have q: "q = - 1074" by (simp add: q_def quantum_def L_def)
    show ?thesis unfolding a q p1074 by simp
  qed
qed

lemma round64_nonneg: "0 \<le> x \<Longrightarrow> 0 \<le> round64 x"
  by (simp add: round64_def rhe_nonneg)

lemma round64_ge_min:
  assumes "1 / 2 ^ 1075 < x"
  shows "1 / 2 ^ 1074 \<le> round64 x"
proof -
  have x0: "0 \<le> x" using assms by (smt (verit) zero_le_divide_1_iff zero_le_power)
  have "round64 x \<noteq> 0" using assms x0 by (simp add: round64_eq_0_iff)
  then have "rhe (x / 2 powr of_int (quantum x)) \<noteq> 0" by (auto simp: round64_def)
  moreover have "0 \<le> rhe (x / 2 powr of_int (quantum x))" using x0 by (simp add: rhe_nonneg)
  ultimately have "1 \<le> rhe (x / 2 powr of_int (quantum x))" by linarith
  then have "(1::real) \<le> of_int (rhe (x / 2 powr of_int (quantum x)))" by linarith
  then have "2 powr of_int (quantum x) \<le> round64 x"
    unfolding round64_def by (simp add: mult_le_cancel_right1)
  moreover have "(2::real) powr of_int (- 1074) \<le> 2 powr of_int (quantum x)"
    using quantum_ge[of x] by simp
  ultimately show ?thesis unfolding p1074 by linarith
qed

lemma ovf_eq_0 [simp]: "ovf r = Finite 0 \<longleftrightarrow> r = 0"
  by (auto simp: ovf_def)

lemma ovf_sum_of_squares: "r = 0 \<or> 1 / 2 ^ 1074 \<le> r \<Longrightarrow> sum_of_squares (ovf r)"
  by (auto simp: ovf_def)

lemma round64_grid: "0 \<le> x \<Longrightarrow> round64 x = 0 \<or> 1 / 2 ^ 1074 \<le> round64 x"
  using round64_ge_min[of x] round64_eq_0_iff[of x] by (cases "x \<le> 1 / 2 ^ 1075") auto

lemma square_sum_of_squares: "sum_of_squares (mul64 c c)"
  by (cases c) (auto intro!: ovf_sum_of_squares round64_grid)

lemma square_eq_0: "mul64 c c = Finite 0 \<longleftrightarrow> square_underflows c"
  by (cases c) (auto simp: round64_eq_0_iff)

lemma add64_sum_of_squares:
  assumes "sum_of_squares a" "sum_of_squares b"
  shows "sum_of_squares (add64 a b)" "add64 a b = Finite 0 \<longleftrightarrow> a = Finite 0 \<and> b = Finite 0"
proof -
  have p: "(0::real) < 1 / 2 ^ 1074" by simp
  have *: "sum_of_squares (add64 a b) \<and> (add64 a b = Finite 0 \<longleftrightarrow> a = Finite 0 \<and> b = Finite 0)"
  proof (cases a)
    case (Finite r)
    note a = this
    show ?thesis
    proof (cases b)
      case (Finite t)
      from assms a Finite have rt: "0 \<le> r" "0 \<le> t" "r = 0 \<or> 1 / 2 ^ 1074 \<le> r" "t = 0 \<or> 1 / 2 ^ 1074 \<le> t"
        using p by auto
      have z: "round64 (r + t) = 0 \<longleftrightarrow> r = 0 \<and> t = 0"
      proof
        assume "round64 (r + t) = 0"
        then have "r + t \<le> 1 / 2 ^ 1075" using rt by (simp add: round64_eq_0_iff)
        moreover have "(1 / 2 ^ 1075 :: real) < 1 / 2 ^ 1074" by simp
        ultimately show "r = 0 \<and> t = 0" using rt by linarith
      next
        assume "r = 0 \<and> t = 0"
        then show "round64 (r + t) = 0" by (simp add: round64_eq_0_iff)
      qed
      have "sum_of_squares (ovf (round64 (r + t)))"
        using rt by (intro ovf_sum_of_squares round64_grid) simp
      with z show ?thesis by (simp add: a Finite)
    qed (use assms a in auto)
  qed (use assms in \<open>cases b; auto\<close>)+
  from * show "sum_of_squares (add64 a b)" "add64 a b = Finite 0 \<longleftrightarrow> a = Finite 0 \<and> b = Finite 0"
    by blast+
qed

lemma sqrt64_eq_0:
  assumes "sum_of_squares a"
  shows "sqrt64 a = Finite 0 \<longleftrightarrow> a = Finite 0"
proof (cases a)
  case (Finite r)
  have p: "(0::real) < 1 / 2 ^ 1074" by simp
  from assms Finite have r: "r = 0 \<or> 1 / 2 ^ 1074 \<le> r" by simp
  then have r0: "0 \<le> r" using p by linarith
  have "round64 (sqrt r) = 0 \<longleftrightarrow> r = 0"
  proof
    assume "round64 (sqrt r) = 0"
    then have "sqrt r \<le> 1 / 2 ^ 1075" using r0 by (simp add: round64_eq_0_iff)
    then have "sqrt r * sqrt r \<le> (1 / 2 ^ 1075) * (1 / 2 ^ 1075)"
      using r0 by (intro mult_mono) simp_all
    then have "r \<le> (1 / 2 ^ 1075) * (1 / 2 ^ 1075)" using r0 by simp
    moreover have "(1 / 2 ^ 1075) * (1 / 2 ^ 1075) < (1 / 2 ^ 1074 :: real)" by simp
    ultimately show "r = 0" using r by linarith
  qed (simp add: round64_eq_0_iff)
  with r0 show ?thesis by (simp add: Finite)
qed (use assms in auto)

lemma eq64_zero [simp]: "eq64 a (Finite 0) \<longleftrightarrow> a = Finite 0"
  by (cases a) auto

lemma Length64_eq_0_iff: "Length64 v = Finite 0 \<longleftrightarrow> underflows v"
  unfolding Length64_def underflows_def
  by (simp add: sqrt64_eq_0 add64_sum_of_squares square_sum_of_squares square_eq_0)

text \<open>
  C10 (as amended). \<open>Normalize\<close> and \<open>FastNormalize\<close> test the computed length against
  zero before they divide, so they never divide by zero. The computed length is zero
  exactly when the square of every component rounds to zero, which is the case for the
  finite components \<open>c\<close> with \<open>c * c\<close> at most \<open>2^-1075\<close>: the zero vector, and also the
  non-zero vectors that small. These are mapped to the zero vector. Every other vector,
  also one with an infinite or NaN component, is mapped to itself divided by its computed
  length.
\<close>

theorem Normalize_guards_rounded_length:
  "Normalize64 v = (if underflows v then Vec3_64_zero else DivScalar64 v (Length64 v))
   \<and> FastNormalize64 v = (if underflows v then Vec3_64_zero else DivScalar64 v (FastLength64 v))
   \<and> (eq64 (Length64 v) (Finite 0) \<longleftrightarrow> underflows v)
   \<and> FastLength64 v = Length64 v
   \<and> Normalize64 Vec3_64_zero = Vec3_64_zero
   \<and> FastNormalize64 Vec3_64_zero = Vec3_64_zero"
proof -
  have f: "FastLength64 w = Length64 w" for w
    by (simp add: FastLength64_def Length64_def FastSqrt64_def)
  show ?thesis
    by (simp add: Normalize64_def FastNormalize64_def f Length64_eq_0_iff Let_def
        underflows_def Vec3_64_zero_def)
qed

lemma rhe_of_int: "rhe (of_int k) = k"
  by (simp add: rhe_def)

lemma round64_powr:
  assumes "- 1022 \<le> e"
  shows "round64 (2 powr of_int e) = 2 powr of_int e"
proof -
  have "log 2 (2 powr of_int e) = of_int e" by (rule log_powr_cancel) simp_all
  then have "\<lfloor>log 2 \<bar>2 powr of_int e :: real\<bar>\<rfloor> = e" by simp
  then have q: "quantum (2 powr of_int e) = e - 52" using assms by (simp add: quantum_def)
  have "(2::real) powr (52 + of_int (e - 52)) = 2 powr 52 * 2 powr of_int (e - 52)"
    by (rule powr_add)
  moreover have "52 + of_int (e - 52) = (of_int e :: real)" by simp
  ultimately have p: "(2::real) powr of_int e = 2 powr 52 * 2 powr of_int (e - 52)"
    by (simp only:)
  have n: "(2::real) powr 52 = of_int (2 ^ 52)"
    using powr_realpow[of "2::real" 52] by simp
  have "(2::real) powr of_int e / 2 powr of_int (e - 52) = of_int (2 ^ 52)"
    unfolding n[symmetric] by (subst p) simp
  then have r: "rhe (2 powr of_int e / 2 powr of_int (e - 52)) = 2 ^ 52"
    by (simp only: rhe_of_int)
  have "of_int (2 ^ 52) * 2 powr of_int (e - 52) = (2::real) powr of_int e"
    by (simp only: p n)
  then show ?thesis
    unfolding round64_def q r .
qed

lemma round64_power_of_two: "round64 (1 / 2 ^ 600) = 1 / 2 ^ 600"
proof -
  have x: "(2::real) powr of_int (- 600) = 1 / 2 ^ 600" using powr_neg_int[of 600] by simp
  show ?thesis using round64_powr[of "- 600"] unfolding x by simp
qed

lemma round64_small_powers: "round64 4 = 4" "round64 2 = 2" "round64 1 = 1" "round64 0 = 0"
  using round64_powr[of 2] round64_powr[of 1] round64_powr[of 0]
  by (simp_all add: round64_eq_0_iff)

text \<open>
  An instance: the vector (2, 0, 0) has the computed length 2 and is mapped to (1, 0, 0).
\<close>

theorem Normalize_guards_rounded_length_witness:
  "Normalize64 \<lparr>X64 = Finite 2, Y64 = Finite 0, Z64 = Finite 0\<rparr>
     = \<lparr>X64 = Finite 1, Y64 = Finite 0, Z64 = Finite 0\<rparr>
   \<and> Length64 \<lparr>X64 = Finite 2, Y64 = Finite 0, Z64 = Finite 0\<rparr> = Finite 2"
proof -
  have l: "Length64 \<lparr>X64 = Finite 2, Y64 = Finite 0, Z64 = Finite 0\<rparr> = Finite 2"
    by (simp add: Length64_def round64_small_powers ovf_def)
  have u: "\<not> underflows \<lparr>X64 = Finite 2, Y64 = Finite 0, Z64 = Finite 0\<rparr>"
    by (simp add: underflows_def)
  from Normalize_guards_rounded_length[of "\<lparr>X64 = Finite 2, Y64 = Finite 0, Z64 = Finite 0\<rparr>"]
  have "Normalize64 \<lparr>X64 = Finite 2, Y64 = Finite 0, Z64 = Finite 0\<rparr>
      = DivScalar64 \<lparr>X64 = Finite 2, Y64 = Finite 0, Z64 = Finite 0\<rparr> (Finite 2)"
    by (simp only: u l if_False)
  then show ?thesis
    by (simp add: l DivScalar64_def round64_small_powers ovf_def)
qed

text \<open>
  C10, the claim as stated fails. The vector \<open>(2^-600, 0, 0)\<close> is not the zero vector, and
  its first component is a value of the format (it is its own rounding). Its square
  \<open>2^-1200\<close> rounds to zero, so the computed length is zero and \<open>Normalize\<close> returns the
  zero vector, not the vector divided by its length.
\<close>

theorem Normalize_tiny_nonzero:
  "Normalize64 \<lparr>X64 = Finite (1 / 2 ^ 600), Y64 = Finite 0, Z64 = Finite 0\<rparr> = Vec3_64_zero
   \<and> Length64 \<lparr>X64 = Finite (1 / 2 ^ 600), Y64 = Finite 0, Z64 = Finite 0\<rparr> = Finite 0
   \<and> \<lparr>X64 = Finite (1 / 2 ^ 600), Y64 = Finite 0, Z64 = Finite 0\<rparr> \<noteq> Vec3_64_zero
   \<and> round64 (1 / 2 ^ 600) = 1 / 2 ^ 600"
proof -
  have l: "Length64 \<lparr>X64 = Finite (1 / 2 ^ 600), Y64 = Finite 0, Z64 = Finite 0\<rparr> = Finite 0"
    by (simp add: Length64_eq_0_iff underflows_def)
  have n: "Normalize64 \<lparr>X64 = Finite (1 / 2 ^ 600), Y64 = Finite 0, Z64 = Finite 0\<rparr> = Vec3_64_zero"
    unfolding Normalize64_def l by (simp add: Let_def)
  have d: "\<lparr>X64 = Finite (1 / 2 ^ 600), Y64 = Finite 0, Z64 = Finite 0\<rparr> \<noteq> Vec3_64_zero"
    by (simp add: Vec3_64_zero_def)
  from n l d round64_power_of_two show ?thesis by (intro conjI)
qed

subsection \<open>The blend weights\<close>

lemma combine_weights:
  "combine e d a r m =
     Add (Add e (MulScalar d (directWeight m))) (MulScalar (Mul a r) (reflectionWeight m))"
  by (simp add: combine_def directWeight_def reflectionWeight_def MulScalar_def Mul_def Add_def)

text \<open>
  C7 (as amended). The weights are functions of the metallic value alone. The reflection
  (indirect) weight is non-decreasing for metallic values above 0.2, where it and the
  direct weight add up to one; up to 0.2 no split is made and both weights are one. A
  perfect reflector gets 0.85. \<open>traceRay\<close> combines its terms with exactly these weights.
\<close>

theorem reflectionWeight_monotone_above_fifth:
  "(2 / 10 < m1 \<and> m1 \<le> m2 \<longrightarrow> reflectionWeight m1 \<le> reflectionWeight m2)
   \<and> (2 / 10 < m \<longrightarrow> directWeight m + reflectionWeight m = 1)
   \<and> (m \<le> 2 / 10 \<longrightarrow> reflectionWeight m = 1 \<and> directWeight m = 1)
   \<and> reflectionWeight 1 = 85 / 100
   \<and> combine e d a r m =
       Add (Add e (MulScalar d (directWeight m))) (MulScalar (Mul a r) (reflectionWeight m))"
proof -
  have mono: "2 / 10 < m1 \<and> m1 \<le> m2 \<longrightarrow> reflectionWeight m1 \<le> reflectionWeight m2"
    by (simp add: reflectionWeight_def)
  have split: "2 / 10 < m \<longrightarrow> directWeight m + reflectionWeight m = 1"
    by (simp add: reflectionWeight_def directWeight_def)
  have low: "m \<le> 2 / 10 \<longrightarrow> reflectionWeight m = 1 \<and> directWeight m = 1"
    by (simp add: reflectionWeight_def directWeight_def)
  have top: "reflectionWeight 1 = 85 / 100"
    by (simp add: reflectionWeight_def)
  from mono split low top combine_weights show ?thesis by blast
qed

theorem reflectionWeight_monotone_above_fifth_witness:
  "(2 / 10 < (3 / 10 :: real)) \<and> (3 / 10 :: real) \<le> 96 / 100
   \<and> reflectionWeight (3 / 10) = 4 / 10 \<and> reflectionWeight (96 / 100) = 85 / 100
   \<and> reflectionWeight (3 / 10) \<le> reflectionWeight (96 / 100)
   \<and> directWeight (3 / 10) + reflectionWeight (3 / 10) = 1
   \<and> (1 / 10 :: real) \<le> 2 / 10 \<and> reflectionWeight (1 / 10) = 1 \<and> directWeight (1 / 10) = 1"
proof -
  have a: "reflectionWeight (3 / 10) \<le> reflectionWeight (96 / 100)"
    using reflectionWeight_monotone_above_fifth [of "3 / 10" "96 / 100"] by simp
  have b: "directWeight (3 / 10) + reflectionWeight (3 / 10) = 1"
    using reflectionWeight_monotone_above_fifth [where m = "3 / 10"] by simp
  have c: "reflectionWeight (1 / 10) = 1 \<and> directWeight (1 / 10) = 1"
    using reflectionWeight_monotone_above_fifth [where m = "1 / 10"] by simp
  have d: "reflectionWeight (3 / 10) = 4 / 10" "reflectionWeight (96 / 100) = 85 / 100"
    by (simp_all add: reflectionWeight_def)
  from a b c d show ?thesis by simp
qed

text \<open>
  C7, the claim as stated fails: along 0.1 < 0.3 < 1 the reflection weight goes from 1 down
  to 0.4 and up again to 0.85, so over the whole range it is neither non-decreasing nor
  non-increasing.
\<close>

theorem reflectionWeight_not_monotone:
  "(1 / 10 :: real) < 3 / 10 \<and> (3 / 10 :: real) < 1
   \<and> reflectionWeight (1 / 10) = 1
   \<and> reflectionWeight (3 / 10) = 4 / 10
   \<and> reflectionWeight 1 = 85 / 100
   \<and> \<not> reflectionWeight (1 / 10) \<le> reflectionWeight (3 / 10)
   \<and> \<not> reflectionWeight (3 / 10) \<ge> reflectionWeight 1"
  by (simp add: reflectionWeight_def)

subsection \<open>The split made by the build\<close>

text \<open>
  C4, the build evaluated on three unit spheres given in the order x = 5, x = 0, x = 10,
  with the bounding boxes of \<open>Sphere.GetBoundingBox\<close>. The box of the whole list is longest
  along x (axis 0), yet the split is at the index midpoint of the unsorted list: the left
  child is the sphere at x = 5 alone and the right child holds the spheres at x = 0 and
  x = 10, which no split of the list sorted along x can produce. Every part does end in a
  leaf with one primitive.
\<close>

theorem NewBVH_splits_at_index_midpoint:
  "NewBVH (\<lambda>h. case h of Sphere c r m \<Rightarrow>
               \<lparr>BoxMin = fst (Sphere_GetBoundingBox c r), BoxMax = snd (Sphere_GetBoundingBox c r)\<rparr>
             | _ \<Rightarrow> \<lparr>BoxMin = Vec3_zero, BoxMax = Vec3_zero\<rparr>)
     [Sphere \<lparr>X = 5, Y = 0, Z = 0\<rparr> 1 (), Sphere \<lparr>X = 0, Y = 0, Z = 0\<rparr> 1 (),
      Sphere \<lparr>X = 10, Y = 0, Z = 0\<rparr> 1 ()] 0 3
   = Inr (BVHNode
       (BVHLeaf (Sphere \<lparr>X = 5, Y = 0, Z = 0\<rparr> 1 ())
          \<lparr>BoxMin = \<lparr>X = 4, Y = - 1, Z = - 1\<rparr>, BoxMax = \<lparr>X = 6, Y = 1, Z = 1\<rparr>\<rparr>)
       (BVHNode
          (BVHLeaf (Sphere \<lparr>X = 0, Y = 0, Z = 0\<rparr> 1 ())
             \<lparr>BoxMin = \<lparr>X = - 1, Y = - 1, Z = - 1\<rparr>, BoxMax = \<lparr>X = 1, Y = 1, Z = 1\<rparr>\<rparr>)
          (BVHLeaf (Sphere \<lparr>X = 10, Y = 0, Z = 0\<rparr> 1 ())
             \<lparr>BoxMin = \<lparr>X = 9, Y = - 1, Z = - 1\<rparr>, BoxMax = \<lparr>X = 11, Y = 1, Z = 1\<rparr>\<rparr>)
          \<lparr>BoxMin = \<lparr>X = - 1, Y = - 1, Z = - 1\<rparr>, BoxMax = \<lparr>X = 11, Y = 1, Z = 1\<rparr>\<rparr>)
       \<lparr>BoxMin = \<lparr>X = - 1, Y = - 1, Z = - 1\<rparr>, BoxMax = \<lparr>X = 11, Y = 1, Z = 1\<rparr>\<rparr>)
   \<and> longestAxis \<lparr>BoxMin = \<lparr>X = - 1, Y = - 1, Z = - 1\<rparr>, BoxMax = \<lparr>X = 11, Y = 1, Z = 1\<rparr>\<rparr> = 0"
  by (simp add: Sphere_GetBoundingBox_def surroundingBox_def FastMin_def FastMax_def
      longestAxis_def Sub_def Add_def Let_def upto.simps)

subsection \<open>The tree search and the linear scan\<close>

lemma closer_None [simp]: "closer a None = a" "closer None b = b"
  by (auto simp: closer_def split: option.splits)


lemma keep_None [simp]: "keep u None = None"
  by (simp add: keep_def)





lemma ub_le_refl [simp]: "ub_le u u" by (cases u) auto








lemma hitWorld_loop_eq_Mesh_loop: "hitWorld_loop hs ray tMin cT cH = Mesh_loop hs ray tMin cT cH"
  by (induction hs arbitrary: cT cH) (simp_all split: option.splits)


lemma contains_refl [simp]: "contains b b" by (simp add: contains_def)















subsection \<open>Termination of the integrator\<close>

lemma Material_records [simp]:
  "Material (Sphere_record c r m ray t) = m"
  "Material (Triangle_record n0 n1 n2 m ray u v t) = m"
  "Material (Plane_record n m ray t) = m"
  by (simp_all add: Sphere_record_def Triangle_record_def Plane_record_def Let_def)

lemma Hit_Material_aux:
  "Hit h ray tMin u = Some r \<Longrightarrow> Material r \<in> set_Hittable h"
  "Mesh_loop hs ray tMin u ch = Some r \<Longrightarrow> ch = Some r \<or> Material r \<in> \<Union> (set_Hittable ` set hs)"
proof (induction h ray tMin u and hs ray tMin u ch arbitrary: r and r rule: Hit_Mesh_loop.induct)
  case (1 center radius material ray tMin tMax)
  then show ?case by (auto simp: Let_def split: if_splits)
next
  case (2 v0 v1 v2 n0 n1 n2 material ray tMin tMax)
  then show ?case by (auto simp: Let_def split: if_splits)
next
  case (3 ppoint pnormal material ray tMin tMax)
  then show ?case by (auto simp: Let_def split: if_splits)
next
  case (4 triangles ray tMin tMax)
  then show ?case by fastforce
next
  case (5 ray tMin closestT closestHit)
  then show ?case by simp
next
  case (6 triangle rest ray tMin closestT closestHit)
  show ?case
  proof (cases "Hit triangle ray tMin closestT")
    case None
    with "6.prems" have "Mesh_loop rest ray tMin closestT closestHit = Some r" by simp
    from "6.IH"(2)[OF None this] show ?thesis by auto
  next
    case (Some hr)
    with "6.prems" have "Mesh_loop rest ray tMin (Fin (T hr)) (Some hr) = Some r" by simp
    from "6.IH"(3)[OF Some this]
    have "Some hr = Some r \<or> Material r \<in> \<Union> (set_Hittable ` set rest)" .
    moreover have "Material hr \<in> set_Hittable triangle" using "6.IH"(1)[OF Some] .
    ultimately show ?thesis by auto
  qed
qed

lemma hitWorld_Material:
  "hitWorld ray hs tMin u = Some r \<Longrightarrow> Material r \<in> \<Union> (set_Hittable ` set hs)"
  unfolding hitWorld_def hitWorld_loop_eq_Mesh_loop
  by (drule Hit_Material_aux(2)) simp

lemma softShadow_loop_returns:
  assumes "\<forall>s. RandomVec3InUnitSphere rnd s \<noteq> None"
  shows "\<exists>r. softShadow_loop rnd p ld d hs n acc s = Some r"
proof (induction n arbitrary: acc s)
  case 0
  then show ?case by simp
next
  case (Suc n)
  from assms have "RandomVec3InUnitSphere rnd s \<noteq> None" by blast
  then obtain v s' where v: "RandomVec3InUnitSphere rnd s = Some (v, s')"
    by (cases "RandomVec3InUnitSphere rnd s") auto
  show ?case using Suc[of _ s'] by (simp add: v Let_def split: option.splits)
qed

lemma calculateSmartShadow_returns:
  assumes "\<forall>s. RandomVec3InUnitSphere rnd s \<noteq> None"
  shows "\<exists>r. calculateSmartShadow rnd R hit light hs s = Some r"
proof -
  let ?h = "hitWorld (NewRay (Point hit) (Normalize (Sub (Light.Position light) (Point hit))))
          hs (1 / 1000) (Fin (Length (Sub (Light.Position light) (Point hit))))"
  obtain sum s' where l: "softShadow_loop rnd (Point hit)
      (Normalize (Sub (Light.Position light) (Point hit)))
      (Length (Sub (Light.Position light) (Point hit))) hs 16 0 s = Some (sum, s')"
    using softShadow_loop_returns[OF assms] by fastforce
  show ?thesis
  proof (cases ?h)
    case (Some a)
    then have "calculateSmartShadow rnd R hit light hs s = Some (0, s)"
      by (simp add: calculateSmartShadow_def Let_def)
    then show ?thesis by blast
  next
    case None
    show ?thesis
    proof (cases "softShadows R")
      case True
      with None l have "calculateSmartShadow rnd R hit light hs s = Some (sum / 16, s')"
        by (simp add: calculateSmartShadow_def Let_def)
      then show ?thesis by blast
    next
      case False
      with None have "calculateSmartShadow rnd R hit light hs s = Some (1, s)"
        by (simp add: calculateSmartShadow_def Let_def)
      then show ?thesis by blast
    qed
  qed
qed

lemma lightStep_returns:
  assumes "\<forall>s. RandomVec3InUnitSphere rnd s \<noteq> None"
  shows "\<exists>r. lightStep rnd R hit hs albedo metallic acc light s = Some r"
proof -
  from calculateSmartShadow_returns[OF assms]
  obtain f s' where "calculateSmartShadow rnd R hit light hs s = Some (f, s')" by fastforce
  then show ?thesis by (simp add: lightStep_def Let_def)
qed

lemma lights_loop_returns:
  assumes "\<forall>s. RandomVec3InUnitSphere rnd s \<noteq> None"
  shows "\<exists>r. lights_loop rnd R hit hs albedo metallic lights acc s = Some r"
proof (induction lights arbitrary: acc s)
  case Nil
  then show ?case by simp
next
  case (Cons l ls)
  from lightStep_returns[OF assms]
  obtain t' s' where "lightStep rnd R hit hs albedo metallic acc l s = Some (t', s')" by fastforce
  with Cons[of t' s'] show ?case by simp
qed

lemma calculateDirectLighting_returns:
  assumes "\<forall>s. RandomVec3InUnitSphere rnd s \<noteq> None"
  shows "\<exists>r. calculateDirectLighting rnd R hit hs lights s = Some r"
  using lights_loop_returns[OF assms] by (simp add: calculateDirectLighting_def Let_def)

lemma traceRay_base:
  "depth \<ge> maxDepth R \<Longrightarrow> traceRay rnd R ray hittables lights depth s = Some (Vec3_zero, s)"
  by (subst traceRay.simps) simp

lemma traceRay_miss:
  "depth < maxDepth R \<Longrightarrow> hitWorld ray hittables (1 / 1000) PInf = None
   \<Longrightarrow> traceRay rnd R ray hittables lights depth s = Some (\<lparr>X = 0, Y = 0, Z = 0\<rparr>, s)"
  by (subst traceRay.simps) simp

lemma traceRay_returns:
  assumes rs: "\<forall>s. RandomVec3InUnitSphere rnd s \<noteq> None"
    and sc: "\<forall>m \<in> \<Union> (set_Hittable ` set hittables). \<forall>ray hit s. Scatter m ray hit s \<noteq> None"
  shows "\<exists>r. traceRay rnd R ray hittables lights depth s = Some r"
proof (induction "nat (maxDepth R - depth)" arbitrary: depth ray s rule: less_induct)
  case less
  show ?case
  proof (cases "depth \<ge> maxDepth R")
    case True
    then show ?thesis by (simp add: traceRay_base)
  next
    case deep: False
    show ?thesis
    proof (cases "hitWorld ray hittables (1 / 1000) PInf")
      case None
      with deep show ?thesis by (simp add: traceRay_miss)
    next
      case (Some hr)
      then have m: "Material hr \<in> \<Union> (set_Hittable ` set hittables)" by (rule hitWorld_Material)
      from calculateDirectLighting_returns[OF rs]
      obtain dl s1 where dl: "calculateDirectLighting rnd R hr hittables lights s = Some (dl, s1)"
        by fastforce
      from sc m have "Scatter (Material hr) ray (HitGeom.truncate hr) s1 \<noteq> None" by blast
      then obtain scattered att sh s2 where
        scat: "Scatter (Material hr) ray (HitGeom.truncate hr) s1 = Some ((scattered, att, sh), s2)"
        by (cases "Scatter (Material hr) ray (HitGeom.truncate hr) s1") auto
      have "\<exists>r. traceRay rnd R scattered hittables lights (depth + 1) s2 = Some r"
        using deep by (intro less) simp
      then obtain rc s3 where rec: "traceRay rnd R scattered hittables lights (depth + 1) s2 = Some (rc, s3)"
        by fastforce
      show ?thesis
        using deep Some dl scat rec by (subst traceRay.simps) simp
    qed
  qed
qed

lemma RandomVec3InUnitSphere_half:
  "RandomVec3InUnitSphere (\<lambda>n::nat. (1 / 2, Suc n)) s = Some (\<lparr>X = 0, Y = 0, Z = 0\<rparr>, Suc (Suc (Suc s)))"
  by (subst RandomVec3InUnitSphere.simps)
    (simp add: RandomVec3_def RandomFloat_def MulScalar_def Sub_def LengthSquared_def)

text \<open>
  C2. \<open>traceRay\<close> returns for every ray, scene, light list, depth and generator state: its
  recursion is bounded by \<open>maxDepth - depth\<close> (the measure of its termination proof). The
  only loops it can reach that are not bounded by a counter are the rejection sampling of
  \<open>RandomVec3InUnitSphere\<close> and whatever the materials' \<open>Scatter\<close> methods do, so these are
  assumed to return (the \<open>Scatter\<close> methods of the material package loop nowhere but in
  that rejection sampling). Called with \<open>depth \<ge> maxDepth\<close> it returns zero radiance and leaves the
  generator untouched: nothing is traced and nothing drawn.
\<close>

theorem traceRay_terminates:
  assumes "\<forall>s. RandomVec3InUnitSphere rnd s \<noteq> None"
    and "\<forall>m \<in> \<Union> (set_Hittable ` set hittables). \<forall>ray hit s. Scatter m ray hit s \<noteq> None"
  shows "(\<exists>c s'. traceRay rnd R ray hittables lights depth s = Some (c, s'))
       \<and> (depth \<ge> maxDepth R \<longrightarrow>
            traceRay rnd R ray hittables lights depth s = Some (Vec3_zero, s))"
proof -
  from traceRay_returns[OF assms]
  obtain r where "traceRay rnd R ray hittables lights depth s = Some r" by blast
  then have "\<exists>c s'. traceRay rnd R ray hittables lights depth s = Some (c, s')"
    by (cases r) simp
  then show ?thesis by (simp add: traceRay_base)
qed

theorem traceRay_terminates_witness:
  "(\<exists>c s'. traceRay (\<lambda>n::nat. (1 / 2, Suc n)) (NewParallelRenderer 4)
        \<lparr>Origin = \<lparr>X = 0, Y = 0, Z = - 5\<rparr>, Direction = \<lparr>X = 0, Y = 0, Z = 1\<rparr>\<rparr>
        [Sphere \<lparr>X = 0, Y = 0, Z = 0\<rparr> 1
           (Lambertian (\<lambda>n::nat. (1 / 2, Suc n)) \<lparr>X = 1 / 2, Y = 1 / 2, Z = 1 / 2\<rparr>)]
        [\<lparr>Position = \<lparr>X = 0, Y = 5, Z = 0\<rparr>, Color = \<lparr>X = 1, Y = 1, Z = 1\<rparr>, Intensity = 10\<rparr>]
        0 0 = Some (c, s'))
   \<and> traceRay (\<lambda>n::nat. (1 / 2, Suc n)) (NewParallelRenderer 4)
        \<lparr>Origin = \<lparr>X = 0, Y = 0, Z = - 5\<rparr>, Direction = \<lparr>X = 0, Y = 0, Z = 1\<rparr>\<rparr>
        [Sphere \<lparr>X = 0, Y = 0, Z = 0\<rparr> 1
           (Lambertian (\<lambda>n::nat. (1 / 2, Suc n)) \<lparr>X = 1 / 2, Y = 1 / 2, Z = 1 / 2\<rparr>)]
        [\<lparr>Position = \<lparr>X = 0, Y = 5, Z = 0\<rparr>, Color = \<lparr>X = 1, Y = 1, Z = 1\<rparr>, Intensity = 10\<rparr>]
        50 0 = Some (Vec3_zero, 0)"
proof -
  let ?rnd = "\<lambda>n::nat. (1 / 2 :: real, Suc n)"
  let ?hs = "[Sphere \<lparr>X = 0, Y = 0, Z = 0\<rparr> 1 (Lambertian ?rnd \<lparr>X = 1 / 2, Y = 1 / 2, Z = 1 / 2\<rparr>)]"
  have a: "\<forall>s. RandomVec3InUnitSphere ?rnd s \<noteq> None"
    by (simp add: RandomVec3InUnitSphere_half)
  have b: "\<forall>m \<in> \<Union> (set_Hittable ` set ?hs). \<forall>ray hit s. Scatter m ray hit s \<noteq> None"
    by (simp add: Lambertian_def RandomVec3InUnitSphere_half Let_def)
  have c: "50 \<ge> maxDepth (NewParallelRenderer 4)"
    by (simp add: NewParallelRenderer_def)
  from traceRay_terminates[OF a b, THEN conjunct1]
    traceRay_terminates[OF a b, THEN conjunct2, THEN mp, OF c]
  show ?thesis by blast
qed

subsection \<open>Rays that hit nothing\<close>

text \<open>
  C3 (as amended). A ray that hits no primitive, at a depth below \<open>maxDepth\<close>, gets the
  fixed radiance (0, 0, 0), whatever its direction, and draws no random number.
\<close>

theorem traceRay_miss_is_black:
  assumes "depth < maxDepth R"
    and "hitWorld ray hittables (1 / 1000) PInf = None"
  shows "traceRay rnd R ray hittables lights depth s = Some (\<lparr>X = 0, Y = 0, Z = 0\<rparr>, s)"
  using assms by (rule traceRay_miss)

theorem traceRay_miss_is_black_witness:
  "traceRay (\<lambda>n::nat. (1 / 2, Suc n)) (NewParallelRenderer 4)
        \<lparr>Origin = \<lparr>X = 0, Y = 0, Z = - 5\<rparr>, Direction = \<lparr>X = 1, Y = 0, Z = 0\<rparr>\<rparr>
        [Sphere \<lparr>X = 0, Y = 0, Z = 0\<rparr> 1
           (Lambertian (\<lambda>n::nat. (1 / 2, Suc n)) \<lparr>X = 1 / 2, Y = 1 / 2, Z = 1 / 2\<rparr>)]
        [\<lparr>Position = \<lparr>X = 0, Y = 5, Z = 0\<rparr>, Color = \<lparr>X = 1, Y = 1, Z = 1\<rparr>, Intensity = 10\<rparr>]
        0 0 = Some (\<lparr>X = 0, Y = 0, Z = 0\<rparr>, 0)"
proof -
  have a: "0 < maxDepth (NewParallelRenderer 4)"
    by (simp add: NewParallelRenderer_def)
  have b: "hitWorld \<lparr>Origin = \<lparr>X = 0, Y = 0, Z = - 5\<rparr>, Direction = \<lparr>X = 1, Y = 0, Z = 0\<rparr>\<rparr>
        [Sphere \<lparr>X = 0, Y = 0, Z = 0\<rparr> 1
           (Lambertian (\<lambda>n::nat. (1 / 2, Suc n)) \<lparr>X = 1 / 2, Y = 1 / 2, Z = 1 / 2\<rparr>)]
        (1 / 1000) PInf = None"
    by (simp add: hitWorld_def Let_def Sub_def Dot_def LengthSquared_def)
  from traceRay_miss_is_black[OF a b] show ?thesis .
qed

text \<open>
  C3, the claim as stated fails: two rays from the same origin with different directions,
  both missing the sphere, get the same radiance, black. It is not the value of the
  renderer's \<open>skyColor\<close> either, which \<open>traceRay\<close> never calls and which is itself the
  constant (0.1, 0.1, 0.1).
\<close>

theorem traceRay_miss_ignores_direction:
  "traceRay (\<lambda>n::nat. (1 / 2, Suc n)) (NewParallelRenderer 4)
        \<lparr>Origin = \<lparr>X = 0, Y = 0, Z = - 5\<rparr>, Direction = \<lparr>X = 1, Y = 0, Z = 0\<rparr>\<rparr>
        [Sphere \<lparr>X = 0, Y = 0, Z = 0\<rparr> 1
           (Lambertian (\<lambda>n::nat. (1 / 2, Suc n)) \<lparr>X = 1 / 2, Y = 1 / 2, Z = 1 / 2\<rparr>)]
        [] 0 0 = Some (\<lparr>X = 0, Y = 0, Z = 0\<rparr>, 0)
   \<and> traceRay (\<lambda>n::nat. (1 / 2, Suc n)) (NewParallelRenderer 4)
        \<lparr>Origin = \<lparr>X = 0, Y = 0, Z = - 5\<rparr>, Direction = \<lparr>X = 0, Y = 1, Z = 0\<rparr>\<rparr>
        [Sphere \<lparr>X = 0, Y = 0, Z = 0\<rparr> 1
           (Lambertian (\<lambda>n::nat. (1 / 2, Suc n)) \<lparr>X = 1 / 2, Y = 1 / 2, Z = 1 / 2\<rparr>)]
        [] 0 0 = Some (\<lparr>X = 0, Y = 0, Z = 0\<rparr>, 0)
   \<and> skyColor \<lparr>Origin = \<lparr>X = 0, Y = 0, Z = - 5\<rparr>, Direction = \<lparr>X = 1, Y = 0, Z = 0\<rparr>\<rparr>
       = \<lparr>X = 1 / 10, Y = 1 / 10, Z = 1 / 10\<rparr>
   \<and> skyColor \<lparr>Origin = \<lparr>X = 0, Y = 0, Z = - 5\<rparr>, Direction = \<lparr>X = 0, Y = 1, Z = 0\<rparr>\<rparr>
       = \<lparr>X = 1 / 10, Y = 1 / 10, Z = 1 / 10\<rparr>"
  by (subst traceRay.simps, subst (2) traceRay.simps)
    (simp add: NewParallelRenderer_def hitWorld_def Let_def Sub_def Dot_def LengthSquared_def
      skyColor_def)

subsection \<open>Direct lighting and shadows\<close>












subsection \<open>Rendering an empty scene\<close>

lemma hitWorld_Nil: "hitWorld ray [] tMin u = None"
  by (simp add: hitWorld_def)

lemma traceRay_empty_scene: "traceRay rnd R ray [] ls depth s = Some (Vec3_zero, s)"
  by (subst traceRay.simps) (simp add: hitWorld_Nil Vec3_zero_def)

lemma tracePixel_loop_empty_scene:
  "\<exists>s'. tracePixel_loop rnd R x y w h cam [] ls n Vec3_zero s = Some (Vec3_zero, s')"
proof (induction n arbitrary: s)
  case 0
  then show ?case by simp
next
  case (Suc n)
  obtain r1 s1 where a: "RandomFloat rnd s = (r1, s1)" by (cases "RandomFloat rnd s")
  obtain r2 s2 where b: "RandomFloat rnd s1 = (r2, s2)" by (cases "RandomFloat rnd s1")
  have z: "Add Vec3_zero Vec3_zero = Vec3_zero" by (simp add: Add_def Vec3_zero_def)
  from Suc[of s2] show ?case
    by (simp add: a b Let_def traceRay_empty_scene z)
qed

lemma tracePixel_empty_scene:
  "\<exists>s'. tracePixel rnd R x y w h cam [] ls s = Some (Vec3_zero, s')"
proof -
  from tracePixel_loop_empty_scene[of rnd R x y w h cam ls "nat (samples R)" s]
  obtain s' where "tracePixel_loop rnd R x y w h cam [] ls (nat (samples R)) Vec3_zero s
      = Some (Vec3_zero, s')" by blast
  then have "tracePixel rnd R x y w h cam [] ls s = Some (Vec3_zero, s')"
    by (simp add: tracePixel_def DivScalar_def Vec3_zero_def)
  then show ?thesis by blast
qed

lemma renderTile_loop_empty_scene:
  "\<exists>s'. renderTile_loop rnd R task [] ls cs acc s
      = Some (acc @ map (\<lambda>(x, y). \<lparr>px = x, py = y, pcolor = Vec3_zero\<rparr>) cs, s')"
proof (induction cs arbitrary: acc s)
  case Nil
  then show ?case by simp
next
  case (Cons c cs)
  obtain x y where c: "c = (x, y)" by (cases c)
  from tracePixel_empty_scene[of rnd R x y "taskWidth task" "taskHeight task" "taskCamera task" ls s]
  obtain s1 where t: "tracePixel rnd R x y (taskWidth task) (taskHeight task) (taskCamera task)
      [] ls s = Some (Vec3_zero, s1)" by blast
  from Cons[of "acc @ [\<lparr>px = x, py = y, pcolor = Vec3_zero\<rparr>]" s1] show ?case
    by (simp add: c t)
qed

lemma worker_empty_scene:
  "\<exists>s'. worker rnd R tasks [] ls acc s
      = Some (acc @ map (\<lambda>t. \<lparr>resultPixels = map (\<lambda>(x, y). \<lparr>px = x, py = y, pcolor = Vec3_zero\<rparr>)
                                   (tilePixels t),
                               resultStartX = startX t, resultStartY = startY t\<rparr>) tasks, s')"
proof (induction tasks arbitrary: acc s)
  case Nil
  then show ?case by simp
next
  case (Cons t ts)
  from renderTile_loop_empty_scene[of rnd R t ls "tilePixels t" "[]" s]
  obtain s1 where r: "renderTile rnd R t [] ls s
      = Some (map (\<lambda>(x, y). \<lparr>px = x, py = y, pcolor = Vec3_zero\<rparr>) (tilePixels t), s1)"
    by (auto simp: renderTile_def)
  from Cons[of "acc @ [\<lparr>resultPixels = map (\<lambda>(x, y). \<lparr>px = x, py = y, pcolor = Vec3_zero\<rparr>)
                                   (tilePixels t),
                          resultStartX = startX t, resultStartY = startY t\<rparr>]" s1]
  show ?case by (simp add: r)
qed

lemma imgSet_black: "imgSet \<lparr>px = x, py = y, pcolor = Vec3_zero\<rparr> = (x, y, 0, 0, 0, 255)"
  by (simp add: imgSet_def toneMap_def ToRGB_def Clamp_def MulScalar_def Vec3_zero_def Let_def)

lemma wrap64_id: "- (2 ^ 63) \<le> i \<Longrightarrow> i < 2 ^ 63 \<Longrightarrow> wrap64 i = i"
  by (simp add: wrap64_def)

lemma chan_sizes_ok:
  assumes "0 \<le> n" "n < 2 ^ 61"
  shows "\<not> (wrap64 (n * 4) < 0 \<or> wrap64 (n * 2) < 0)"
proof -
  have "wrap64 (n * 4) = n * 4" using assms by (intro wrap64_id) auto
  moreover have "wrap64 (n * 2) = n * 2" using assms by (intro wrap64_id) auto
  ultimately show ?thesis using assms by simp
qed

lemma Render_empty_scene:
  assumes "0 < numWorkers R" "numWorkers R < 2 ^ 61" "Hittables scene = []"
  shows "\<exists>s'. Render rnd R scene width height s
     = Some (Inr (map (\<lambda>(x, y). (x, y, 0, 0, 0, 255))
                 (concat (map tilePixels (createRenderTasks width height (SceneCamera scene))))), s')"
proof -
  let ?tasks = "createRenderTasks width height (SceneCamera scene)"
  from worker_empty_scene[of rnd R ?tasks "Lights scene" "[]" s]
  obtain s' where w: "worker rnd R ?tasks [] (Lights scene) [] s
      = Some (map (\<lambda>t. \<lparr>resultPixels = map (\<lambda>(x, y). \<lparr>px = x, py = y, pcolor = Vec3_zero\<rparr>)
                                   (tilePixels t),
                               resultStartX = startX t, resultStartY = startY t\<rparr>) ?tasks, s')"
    by auto
  have c: "\<not> (wrap64 (numWorkers R * 4) < 0 \<or> wrap64 (numWorkers R * 2) < 0)"
    using assms by (intro chan_sizes_ok) auto
  have "Render rnd R scene width height s
     = Some (Inr (map (\<lambda>(x, y). (x, y, 0, 0, 0, 255)) (concat (map tilePixels ?tasks))), s')"
    using assms(1) c
    by (simp add: Render_def Let_def assms(3) w map_concat comp_def imgSet_black case_prod_unfold)
  then show ?thesis by blast
qed

subsection \<open>Tiles\<close>

lemma sdiv32_nonneg: "0 \<le> a \<Longrightarrow> a sdiv (32::int) = a div 32"
  by (simp add: signed_divide_int_def sgn_if)

lemma sdiv32_neg: "a < 0 \<Longrightarrow> a sdiv (32::int) \<le> 0"
  by (simp add: signed_divide_int_def sgn_if)

lemma numTilesExpr:
  assumes "- (2 ^ 63) \<le> w" "w < 2 ^ 63 - 32"
  shows "wrap64 (wrap64 (w + 32) - 1) = w + 31"
proof -
  have a: "wrap64 (w + 32) = w + 32" using assms by (intro wrap64_id) auto
  have "wrap64 (w + 32 - 1) = w + 32 - 1" using assms by (intro wrap64_id) auto
  with a show ?thesis by simp
qed

lemma tiles_range:
  assumes "- (2 ^ 63) \<le> w" "w < 2 ^ 63 - 32"
  shows "[0 .. wrap64 (wrap64 (w + 32) - 1) sdiv 32 - 1] = [0 .. numTiles w - 1]"
proof (cases "w \<le> 0")
  case True
  have "(w + 31) sdiv 32 \<le> 0"
  proof (cases "w + 31 < 0")
    case True then show ?thesis by (rule sdiv32_neg)
  next
    case False
    then have "(w + 31) sdiv 32 = (w + 31) div 32" by (intro sdiv32_nonneg) simp
    with True show ?thesis by simp
  qed
  then have "[0 .. (w + 31) sdiv 32 - 1] = []" by simp
  moreover have "[0 .. numTiles w - 1] = []" using True by (simp add: numTiles_def)
  ultimately show ?thesis by (simp only: numTilesExpr[OF assms])
next
  case False
  then have "(w + 31) sdiv 32 = (w + 31) div 32" by (intro sdiv32_nonneg) simp
  moreover have "numTiles w = (w + 31) div 32" using False by (simp add: numTiles_def)
  ultimately show ?thesis by (simp only: numTilesExpr[OF assms])
qed

lemma createRenderTasks_plain:
  assumes "- (2 ^ 63) \<le> width" "width < 2 ^ 63 - 32" "- (2 ^ 63) \<le> height" "height < 2 ^ 63 - 32"
  shows "createRenderTasks width height camera =
    concat (map (\<lambda>y. map (mkTask width height camera y) [0 .. numTiles width - 1])
       [0 .. numTiles height - 1])"
proof -
  have inner: "(let sX = wrap64 (x * 32);
               sY = wrap64 (y * 32);
               eX = wrap64 (sX + 32);
               eX = (if eX > width then width else eX);
               eY = wrap64 (sY + 32);
               eY = (if eY > height then height else eY)
           in \<lparr>startX = sX, startY = sY, endX = eX, endY = eY,
               taskWidth = width, taskHeight = height, taskCamera = camera\<rparr>)
         = mkTask width height camera y x"
    if x: "x \<in> set [0 .. numTiles width - 1]" and y: "y \<in> set [0 .. numTiles height - 1]" for x y
  proof -
    from x have x0: "0 \<le> x" "x < numTiles width" by auto
    then have wpos: "0 < width" by (auto simp: numTiles_def split: if_splits)
    from x0 wpos have "x < (width + 31) div 32" by (simp add: numTiles_def)
    then have xb: "32 * x < width" by linarith
    from y have y0: "0 \<le> y" "y < numTiles height" by auto
    then have hpos: "0 < height" by (auto simp: numTiles_def split: if_splits)
    from y0 hpos have "y < (height + 31) div 32" by (simp add: numTiles_def)
    then have yb: "32 * y < height" by linarith
    have 1: "wrap64 (x * 32) = 32 * x" using x0 xb assms by (subst wrap64_id) auto
    have 2: "wrap64 (y * 32) = 32 * y" using y0 yb assms by (subst wrap64_id) auto
    have 3: "wrap64 (32 * x + 32) = 32 * x + 32" using x0 xb assms by (subst wrap64_id) auto
    have 4: "wrap64 (32 * y + 32) = 32 * y + 32" using y0 yb assms by (subst wrap64_id) auto
    show ?thesis by (simp add: 1 2 3 4 mkTask_def min_def Let_def)
  qed
  show ?thesis
    unfolding createRenderTasks_def Let_def
    apply (simp only: tiles_range[OF assms(1,2)] tiles_range[OF assms(3,4)])
    apply (rule arg_cong[where f = concat])
    apply (rule map_cong[OF refl])
    apply (rule map_cong[OF refl])
    using inner unfolding Let_def by simp
qed

lemma set_tilePixels:
  "set (tilePixels t) = {(x, y). startX t \<le> x \<and> x < endX t \<and> startY t \<le> y \<and> y < endY t}"
  by (auto simp: tilePixels_def)

lemma tilePixels_product:
  "tilePixels t = map prod.swap (List.product [startY t .. endY t - 1] [startX t .. endX t - 1])"
  by (simp add: tilePixels_def product_concat_map map_concat comp_def)

lemma distinct_tilePixels: "distinct (tilePixels t)"
  unfolding tilePixels_product
  by (simp add: distinct_map distinct_product)

lemma numTiles_bound: "0 \<le> x \<Longrightarrow> x \<le> numTiles w - 1 \<Longrightarrow> 32 * x < w"
  by (auto simp: numTiles_def split: if_splits)

lemma numTiles_covers: "0 \<le> p \<Longrightarrow> p < w \<Longrightarrow> p div 32 \<le> numTiles w - 1"
  by (auto simp: numTiles_def split: if_splits)

lemma tileGrid_product:
  "tileGrid w h c =
     map (\<lambda>(y, x). mkTask w h c y x) (List.product [0 .. numTiles h - 1] [0 .. numTiles w - 1])"
  by (simp add: tileGrid_def product_concat_map map_concat comp_def)

lemma in_tileGrid:
  "t \<in> set (tileGrid w h c) \<longleftrightarrow>
     (\<exists>x y. 0 \<le> x \<and> x \<le> numTiles w - 1 \<and> 0 \<le> y \<and> y \<le> numTiles h - 1 \<and> t = mkTask w h c y x)"
  by (force simp: tileGrid_product)

lemma tileGrid_bounds:
  assumes "t \<in> set (tileGrid w h c)"
  shows "0 \<le> startX t \<and> startX t < endX t \<and> endX t \<le> w \<and> endX t - startX t \<le> 32
       \<and> 0 \<le> startY t \<and> startY t < endY t \<and> endY t \<le> h \<and> endY t - startY t \<le> 32"
proof -
  from assms obtain x y where xy: "0 \<le> x" "x \<le> numTiles w - 1" "0 \<le> y" "y \<le> numTiles h - 1"
    and t: "t = mkTask w h c y x" by (auto simp: in_tileGrid)
  from xy have "32 * x < w" "32 * y < h" by (auto intro: numTiles_bound)
  with xy show ?thesis by (simp add: t mkTask_def min_def)
qed

lemma set_tileGrid_pixels:
  "set (concat (map tilePixels (tileGrid w h c))) = {0 ..< w} \<times> {0 ..< h}"
proof (rule set_eqI, clarify)
  fix px py :: int
  show "(px, py) \<in> set (concat (map tilePixels (tileGrid w h c))) \<longleftrightarrow> (px, py) \<in> {0 ..< w} \<times> {0 ..< h}"
  proof
    assume "(px, py) \<in> set (concat (map tilePixels (tileGrid w h c)))"
    then obtain t where t: "t \<in> set (tileGrid w h c)" and p: "(px, py) \<in> set (tilePixels t)"
      by auto
    from tileGrid_bounds[OF t] p show "(px, py) \<in> {0 ..< w} \<times> {0 ..< h}"
      by (auto simp: set_tilePixels)
  next
    assume "(px, py) \<in> {0 ..< w} \<times> {0 ..< h}"
    then have b: "0 \<le> px" "px < w" "0 \<le> py" "py < h" by auto
    let ?t = "mkTask w h c (py div 32) (px div 32)"
    have "?t \<in> set (tileGrid w h c)"
      unfolding in_tileGrid using b numTiles_covers[of px w] numTiles_covers[of py h]
      by (intro exI[of _ "px div 32"] exI[of _ "py div 32"]) (simp add: pos_imp_zdiv_nonneg_iff)
    moreover have "(px, py) \<in> set (tilePixels ?t)"
      using b by (simp add: set_tilePixels mkTask_def) linarith
    ultimately show "(px, py) \<in> set (concat (map tilePixels (tileGrid w h c)))" by auto
  qed
qed

lemma mkTask_pixels_disjoint:
  assumes "(x, y) \<noteq> (x', y')"
  shows "set (tilePixels (mkTask w h c y x)) \<inter> set (tilePixels (mkTask w h c y' x')) = {}"
  using assms by (auto simp: set_tilePixels mkTask_def)

lemma mkTask_pixels_nonempty:
  assumes "0 \<le> x" "x \<le> numTiles w - 1" "0 \<le> y" "y \<le> numTiles h - 1"
  shows "(32 * x, 32 * y) \<in> set (tilePixels (mkTask w h c y x))"
  using numTiles_bound[OF assms(1,2)] numTiles_bound[OF assms(3,4)]
  by (simp add: set_tilePixels mkTask_def)

lemma distinct_tileGrid_pixels:
  "distinct (concat (map tilePixels (tileGrid w h c)))"
proof (rule distinct_concat)
  let ?idx = "List.product [0 .. numTiles h - 1] [0 .. numTiles w - 1]"
  let ?f = "\<lambda>(y, x). tilePixels (mkTask w h c y x)"
  have m: "map tilePixels (tileGrid w h c) = map ?f ?idx"
    by (simp add: tileGrid_product comp_def case_prod_unfold)
  have "inj_on ?f (set ?idx)"
  proof (rule inj_onI, clarify)
    fix y x y' x'
    assume a: "(y, x) \<in> set ?idx" "(y', x') \<in> set ?idx"
      and e: "tilePixels (mkTask w h c y x) = tilePixels (mkTask w h c y' x')"
    from a have "(32 * x, 32 * y) \<in> set (tilePixels (mkTask w h c y x))"
      by (intro mkTask_pixels_nonempty) auto
    with e have "(32 * x, 32 * y) \<in> set (tilePixels (mkTask w h c y x)) \<inter> set (tilePixels (mkTask w h c y' x'))"
      by simp
    with mkTask_pixels_disjoint[of x y x' y' w h c] show "y = y' \<and> x = x'" by blast
  qed
  then show "distinct (map tilePixels (tileGrid w h c))"
    unfolding m by (simp add: distinct_map distinct_product)
next
  fix ys assume "ys \<in> set (map tilePixels (tileGrid w h c))"
  then show "distinct ys" by (auto simp: distinct_tilePixels)
next
  fix ys zs
  assume "ys \<in> set (map tilePixels (tileGrid w h c))" "zs \<in> set (map tilePixels (tileGrid w h c))"
    "ys \<noteq> zs"
  then obtain t t' where tt: "t \<in> set (tileGrid w h c)" "t' \<in> set (tileGrid w h c)"
    "ys = tilePixels t" "zs = tilePixels t'" "t \<noteq> t'"
    by auto
  from tt(1) obtain x y where t: "t = mkTask w h c y x" unfolding in_tileGrid by blast
  from tt(2) obtain x' y' where t': "t' = mkTask w h c y' x'" unfolding in_tileGrid by blast
  from tt(5) t t' have "(x, y) \<noteq> (x', y')" by auto
  then show "set ys \<inter> set zs = {}"
    unfolding tt(3,4) t t' by (rule mkTask_pixels_disjoint)
qed

lemma coord_imgSet: "coord (imgSet p) = (px p, py p)"
  by (simp add: coord_def imgSet_def Let_def split: prod.splits)

lemma renderTile_loop_coords:
  "renderTile_loop rnd R task hs ls cs acc s = Some (ps, s')
   \<Longrightarrow> map (\<lambda>p. (px p, py p)) ps = map (\<lambda>p. (px p, py p)) acc @ cs"
proof (induction cs arbitrary: acc s)
  case Nil
  then show ?case by simp
next
  case (Cons c cs)
  obtain x y where c: "c = (x, y)" by (cases c)
  from Cons.prems obtain color s1 where
    t: "tracePixel rnd R x y (taskWidth task) (taskHeight task) (taskCamera task) hs ls s
          = Some (color, s1)"
    unfolding c by (auto split: option.splits)
  with Cons.prems have "renderTile_loop rnd R task hs ls cs
      (acc @ [\<lparr>px = x, py = y, pcolor = color\<rparr>]) s1 = Some (ps, s')"
    unfolding c by simp
  from Cons.IH[OF this] show ?case by (simp add: c)
qed

lemma renderTile_coords:
  "renderTile rnd R task hs ls s = Some (ps, s')
   \<Longrightarrow> map (\<lambda>p. (px p, py p)) ps = tilePixels task"
  unfolding renderTile_def by (drule renderTile_loop_coords) simp

lemma worker_coords:
  "worker rnd R tasks hs ls acc s = Some (rs, s')
   \<Longrightarrow> concat (map (\<lambda>r. map (\<lambda>p. (px p, py p)) (resultPixels r)) rs)
       = concat (map (\<lambda>r. map (\<lambda>p. (px p, py p)) (resultPixels r)) acc)
         @ concat (map tilePixels tasks)"
proof (induction tasks arbitrary: acc s)
  case Nil
  then show ?case by simp
next
  case (Cons t ts)
  from Cons.prems obtain ps s1 where
    r: "renderTile rnd R t hs ls s = Some (ps, s1)"
    by (auto split: option.splits)
  with Cons.prems have "worker rnd R ts hs ls
      (acc @ [\<lparr>resultPixels = ps, resultStartX = startX t, resultStartY = startY t\<rparr>]) s1
      = Some (rs, s')"
    by simp
  from Cons.IH[OF this] renderTile_coords[OF r] show ?case by simp
qed

lemma Render_coords:
  assumes "Render rnd R scene width height s = Some (Inr writes, s')" "0 < numWorkers R"
  shows "map coord writes = concat (map tilePixels (createRenderTasks width height (SceneCamera scene)))"
proof -
  from assms obtain rs where
    w: "worker rnd R (createRenderTasks width height (SceneCamera scene)) (Hittables scene)
          (Lights scene) [] s = Some (rs, s')"
    and wr: "writes = concat (map (\<lambda>result. map imgSet (resultPixels result)) rs)"
    by (auto simp: Render_def Let_def split: if_splits option.splits)
  have "map coord writes = concat (map (\<lambda>r. map (\<lambda>p. (px p, py p)) (resultPixels r)) rs)"
    unfolding wr by (simp add: map_concat comp_def coord_imgSet)
  with worker_coords[OF w] show ?thesis by simp
qed

lemma tileGrid_all_bounds:
  "list_all (\<lambda>t. 0 \<le> startX t \<and> startX t < endX t \<and> endX t \<le> w \<and> endX t - startX t \<le> 32
       \<and> 0 \<le> startY t \<and> startY t < endY t \<and> endY t \<le> h \<and> endY t - startY t \<le> 32)
     (tileGrid w h c)"
  unfolding list_all_iff using tileGrid_bounds by blast

text \<open>
  C5. For a width and a height in the range where Go's \<open>int\<close> arithmetic of
  \<open>createRenderTasks\<close> does not wrap (at most \<open>2^63 - 33\<close>; an image near that size cannot
  be allocated anyway), with the fixed tile size 32: every task lies inside the image, is
  not empty and is at most 32 by 32; the pixels of all tasks, listed tile after tile as
  \<open>renderTile\<close> visits them, contain no pixel twice, so no two tiles overlap; and they are
  exactly the pixels of \<open>[0,width) x [0,height)\<close>. Consequently, when \<open>Render\<close> has at
  least one worker and returns, its \<open>img.Set\<close> calls address every pixel of the image
  exactly once. Widths and heights that are not multiples of 32 are included, and so are
  non-positive ones, for which there is no tile and no pixel.
\<close>

theorem tiles_cover_image:
  assumes "- (2 ^ 63) \<le> width" "width < 2 ^ 63 - 32"
    and "- (2 ^ 63) \<le> height" "height < 2 ^ 63 - 32"
  shows "list_all (\<lambda>t. 0 \<le> startX t \<and> startX t < endX t \<and> endX t \<le> width
                     \<and> endX t - startX t \<le> 32
                     \<and> 0 \<le> startY t \<and> startY t < endY t \<and> endY t \<le> height
                     \<and> endY t - startY t \<le> 32)
           (createRenderTasks width height camera)
       \<and> distinct (concat (map tilePixels (createRenderTasks width height camera)))
       \<and> set (concat (map tilePixels (createRenderTasks width height camera)))
           = {0 ..< width} \<times> {0 ..< height}
       \<and> (0 < numWorkers R \<and> Render rnd R scene width height s = Some (Inr writes, s') \<longrightarrow>
            distinct (map coord writes)
            \<and> set (map coord writes) = {0 ..< width} \<times> {0 ..< height})"
proof -
  have g: "createRenderTasks width height c = tileGrid width height c" for c
    using createRenderTasks_plain[OF assms] by (simp add: tileGrid_def)
  have "0 < numWorkers R \<and> Render rnd R scene width height s = Some (Inr writes, s') \<longrightarrow>
            distinct (map coord writes)
            \<and> set (map coord writes) = {0 ..< width} \<times> {0 ..< height}"
  proof (intro impI, elim conjE)
    assume "0 < numWorkers R" "Render rnd R scene width height s = Some (Inr writes, s')"
    from Render_coords[OF this(2,1)]
    have "map coord writes = concat (map tilePixels (tileGrid width height (SceneCamera scene)))"
      by (simp add: g)
    then show "distinct (map coord writes)
            \<and> set (map coord writes) = {0 ..< width} \<times> {0 ..< height}"
      using distinct_tileGrid_pixels set_tileGrid_pixels by metis
  qed
  then show ?thesis
    unfolding g
    using tileGrid_all_bounds distinct_tileGrid_pixels set_tileGrid_pixels by blast
qed

text \<open>
  A 33 by 1 image: the two tiles are [0,32) and [32,33) in x, and the render of an empty
  scene writes each of the 33 pixels once.
\<close>

theorem tiles_cover_image_witness:
  "map (\<lambda>t. (startX t, endX t, startY t, endY t))
     (createRenderTasks 33 1 \<lparr>Camera.Position = Vec3_zero, LookAt = \<lparr>X = 0, Y = 0, Z = - 1\<rparr>,
                               Up = \<lparr>X = 0, Y = 1, Z = 0\<rparr>, FOV = 90, AspectRatio = 1\<rparr>)
     = [(0, 32, 0, 1), (32, 33, 0, 1)]
   \<and> distinct (concat (map tilePixels
        (createRenderTasks 33 1 \<lparr>Camera.Position = Vec3_zero, LookAt = \<lparr>X = 0, Y = 0, Z = - 1\<rparr>,
                                  Up = \<lparr>X = 0, Y = 1, Z = 0\<rparr>, FOV = 90, AspectRatio = 1\<rparr>)))
   \<and> set (concat (map tilePixels
        (createRenderTasks 33 1 \<lparr>Camera.Position = Vec3_zero, LookAt = \<lparr>X = 0, Y = 0, Z = - 1\<rparr>,
                                  Up = \<lparr>X = 0, Y = 1, Z = 0\<rparr>, FOV = 90, AspectRatio = 1\<rparr>)))
       = {0 ..< 33} \<times> {0 ..< 1}
   \<and> (\<exists>writes s'.
        Render (\<lambda>n::nat. (1 / 2, Suc n)) (NewParallelRenderer 4)
          \<lparr>SceneCamera = \<lparr>Camera.Position = Vec3_zero, LookAt = \<lparr>X = 0, Y = 0, Z = - 1\<rparr>,
                           Up = \<lparr>X = 0, Y = 1, Z = 0\<rparr>, FOV = 90, AspectRatio = 1\<rparr>,
            Hittables = [], Lights = []\<rparr> 33 1 0 = Some (Inr writes, s')
        \<and> distinct (map coord writes)
        \<and> set (map coord writes) = {0 ..< 33} \<times> {0 ..< 1})"
proof -
  let ?cam = "\<lparr>Camera.Position = Vec3_zero, LookAt = \<lparr>X = 0, Y = 0, Z = - 1\<rparr>,
               Up = \<lparr>X = 0, Y = 1, Z = 0\<rparr>, FOV = 90, AspectRatio = 1\<rparr>"
  let ?scene = "\<lparr>SceneCamera = ?cam, Hittables = [], Lights = []\<rparr> :: nat Scene"
  let ?R = "NewParallelRenderer 4"
  let ?rnd = "\<lambda>n::nat. (1 / 2 :: real, Suc n)"
  have b: "- (2 ^ 63) \<le> (33::int)" "(33::int) < 2 ^ 63 - 32" "- (2 ^ 63) \<le> (1::int)"
    "(1::int) < 2 ^ 63 - 32" by simp_all
  have w: "0 < numWorkers ?R" "numWorkers ?R < 2 ^ 61"
    by (simp_all add: NewParallelRenderer_def)
  have tasks: "map (\<lambda>t. (startX t, endX t, startY t, endY t)) (createRenderTasks 33 1 ?cam)
     = [(0, 32, 0, 1), (32, 33, 0, 1)]"
    by (simp add: createRenderTasks_def wrap64_def signed_divide_int_def Let_def upto.simps)
  from Render_empty_scene[OF w, of ?scene ?rnd 33 1 0]
  obtain writes s' where r: "Render ?rnd ?R ?scene 33 1 0 = Some (Inr writes, s')"
    by auto
  note C = tiles_cover_image[OF b, of ?cam ?R ?rnd ?scene 0 writes s']
  from C w(1) r have "distinct (map coord writes) \<and> set (map coord writes) = {0 ..< 33} \<times> {0 ..< 1}"
    by blast
  with r have "\<exists>writes s'. Render ?rnd ?R ?scene 33 1 0 = Some (Inr writes, s')
        \<and> distinct (map coord writes) \<and> set (map coord writes) = {0 ..< 33} \<times> {0 ..< 1}"
    by blast
  with tasks C show ?thesis by blast
qed

subsection \<open>Configurations that are not checked\<close>

lemma Render_zero_workers:
  "numWorkers R = 0 \<Longrightarrow> Render rnd R scene width height s = Some (Inr [], s)"
  by (simp add: Render_def Let_def wrap64_def)

lemma tileGrid_empty: "w \<le> 0 \<or> h \<le> 0 \<Longrightarrow> tileGrid w h c = []"
  by (auto simp: tileGrid_def numTiles_def)

lemma Render_no_tiles:
  assumes "0 \<le> numWorkers R" "numWorkers R < 2 ^ 61"
    and "- (2 ^ 63) \<le> width" "width < 2 ^ 63 - 32"
    and "- (2 ^ 63) \<le> height" "height < 2 ^ 63 - 32"
    and "width \<le> 0 \<or> height \<le> 0"
  shows "Render rnd R scene width height s = Some (Inr [], s)"
proof -
  have "createRenderTasks width height (SceneCamera scene) = []"
    using createRenderTasks_plain[OF assms(3-6)] tileGrid_empty[OF assms(7)]
    by (simp add: tileGrid_def)
  moreover have "\<not> (wrap64 (numWorkers R * 4) < 0 \<or> wrap64 (numWorkers R * 2) < 0)"
    using assms by (intro chan_sizes_ok) auto
  ultimately show ?thesis by (simp add: Render_def Let_def)
qed

lemma NewBVH_empty: "NewBVH bbox [] 0 0 = Inl IndexOutOfRange"
  by (subst NewBVH.simps) simp

text \<open>
  C9 (as amended). \<open>Render\<close> has no error result and validates nothing. With a worker
  count of at least zero (a negative one makes \<open>make(chan ...)\<close> panic), a non-positive
  width or height, or zero workers, it returns an image into which no pixel was written
  and draws no random number; an empty primitive list is rendered like any other scene,
  every pixel black (for a positive sample count). \<open>NewBVH\<close> over an empty list is
  not guarded either: it stops at \<open>objects[start]\<close> with Go's index-out-of-range panic.
\<close>

theorem Render_reports_no_configuration_error:
  assumes "0 \<le> numWorkers R" "numWorkers R < 2 ^ 61"
    and "- (2 ^ 63) \<le> width" "width < 2 ^ 63 - 32"
    and "- (2 ^ 63) \<le> height" "height < 2 ^ 63 - 32"
  shows "(width \<le> 0 \<or> height \<le> 0 \<or> numWorkers R = 0 \<longrightarrow>
            Render rnd R scene width height s = Some (Inr [], s))
       \<and> (Hittables scene = [] \<and> 0 < numWorkers R \<and> 0 < samples R \<longrightarrow>
            (\<exists>s'. Render rnd R scene width height s
               = Some (Inr (map (\<lambda>(x, y). (x, y, 0, 0, 0, 255))
                             (concat (map tilePixels
                                (createRenderTasks width height (SceneCamera scene))))), s')))
       \<and> NewBVH bbox [] 0 0 = Inl IndexOutOfRange"
proof -
  have 1: "width \<le> 0 \<or> height \<le> 0 \<or> numWorkers R = 0 \<longrightarrow>
            Render rnd R scene width height s = Some (Inr [], s)"
    using Render_no_tiles[OF assms, of rnd scene s]
      Render_zero_workers[of R rnd scene width height s] by auto
  have 2: "Hittables scene = [] \<and> 0 < numWorkers R \<and> 0 < samples R \<longrightarrow>
            (\<exists>s'. Render rnd R scene width height s
               = Some (Inr (map (\<lambda>(x, y). (x, y, 0, 0, 0, 255))
                             (concat (map tilePixels
                                (createRenderTasks width height (SceneCamera scene))))), s'))"
    using Render_empty_scene[OF _ assms(2), of scene rnd width height s] by auto
  from 1 2 NewBVH_empty show ?thesis by (intro conjI)
qed

lemma createRenderTasks_2_1:
  "createRenderTasks 2 1 c =
     [\<lparr>startX = 0, startY = 0, endX = 2, endY = 1, taskWidth = 2, taskHeight = 1,
       taskCamera = c\<rparr>]"
  by (simp add: createRenderTasks_def wrap64_def signed_divide_int_def Let_def upto.simps)

text \<open>A width of zero, and a 2 by 1 image of the empty scene.\<close>

theorem Render_reports_no_configuration_error_witness:
  "Render (\<lambda>n::nat. (1 / 2, Suc n)) (NewParallelRenderer 4)
      \<lparr>SceneCamera = \<lparr>Camera.Position = Vec3_zero, LookAt = \<lparr>X = 0, Y = 0, Z = - 1\<rparr>,
                       Up = \<lparr>X = 0, Y = 1, Z = 0\<rparr>, FOV = 90, AspectRatio = 1\<rparr>,
        Hittables = [], Lights = []\<rparr> 0 600 0 = Some (Inr [], 0)
   \<and> (\<exists>s'. Render (\<lambda>n::nat. (1 / 2, Suc n)) (NewParallelRenderer 4)
      \<lparr>SceneCamera = \<lparr>Camera.Position = Vec3_zero, LookAt = \<lparr>X = 0, Y = 0, Z = - 1\<rparr>,
                       Up = \<lparr>X = 0, Y = 1, Z = 0\<rparr>, FOV = 90, AspectRatio = 1\<rparr>,
        Hittables = [], Lights = []\<rparr> 2 1 0
        = Some (Inr [(0, 0, 0, 0, 0, 255), (1, 0, 0, 0, 0, 255)], s'))"
proof -
  let ?R = "NewParallelRenderer 4"
  have w: "0 \<le> numWorkers ?R" "numWorkers ?R < 2 ^ 61"
    by (simp_all add: NewParallelRenderer_def)
  have a: "- (2 ^ 63) \<le> (0::int)" "(0::int) < 2 ^ 63 - 32" "- (2 ^ 63) \<le> (600::int)"
    "(600::int) < 2 ^ 63 - 32" by simp_all
  have b: "- (2 ^ 63) \<le> (2::int)" "(2::int) < 2 ^ 63 - 32" "- (2 ^ 63) \<le> (1::int)"
    "(1::int) < 2 ^ 63 - 32" by simp_all
  note A = Render_reports_no_configuration_error[OF w a, THEN conjunct1, THEN mp]
  note B = Render_reports_no_configuration_error[OF w b, THEN conjunct2, THEN conjunct1, THEN mp]
  have c: "0 < numWorkers ?R \<and> 0 < samples ?R" by (simp add: NewParallelRenderer_def)
  show ?thesis
    using A[of "(\<lambda>n::nat. (1 / 2, Suc n))" _ 0]
      B[of "\<lparr>SceneCamera = \<lparr>Camera.Position = Vec3_zero, LookAt = \<lparr>X = 0, Y = 0, Z = - 1\<rparr>,
                       Up = \<lparr>X = 0, Y = 1, Z = 0\<rparr>, FOV = 90, AspectRatio = 1\<rparr>,
        Hittables = [], Lights = []\<rparr>" "(\<lambda>n::nat. (1 / 2, Suc n))" 0] c
    by (simp add: createRenderTasks_2_1 tilePixels_def upto.simps)
qed

text \<open>
  C9, the claim as stated fails: for a scene with one sphere, width 0, height -600 and a
  renderer with zero workers each make \<open>Render\<close> return an image (with nothing written)
  and not an error.
\<close>

theorem Render_accepts_bad_configuration:
  "Render (\<lambda>n::nat. (1 / 2, Suc n)) (NewParallelRenderer 4)
      \<lparr>SceneCamera = \<lparr>Camera.Position = Vec3_zero, LookAt = \<lparr>X = 0, Y = 0, Z = - 1\<rparr>,
                       Up = \<lparr>X = 0, Y = 1, Z = 0\<rparr>, FOV = 90, AspectRatio = 1\<rparr>,
        Hittables = [Sphere \<lparr>X = 0, Y = 0, Z = - 3\<rparr> 1 (DiffuseLight \<lparr>X = 1, Y = 1, Z = 1\<rparr>)],
        Lights = []\<rparr> 0 600 0 = Some (Inr [], 0)
   \<and> Render (\<lambda>n::nat. (1 / 2, Suc n)) (NewParallelRenderer 4)
      \<lparr>SceneCamera = \<lparr>Camera.Position = Vec3_zero, LookAt = \<lparr>X = 0, Y = 0, Z = - 1\<rparr>,
                       Up = \<lparr>X = 0, Y = 1, Z = 0\<rparr>, FOV = 90, AspectRatio = 1\<rparr>,
        Hittables = [Sphere \<lparr>X = 0, Y = 0, Z = - 3\<rparr> 1 (DiffuseLight \<lparr>X = 1, Y = 1, Z = 1\<rparr>)],
        Lights = []\<rparr> 800 (- 600) 0 = Some (Inr [], 0)
   \<and> Render (\<lambda>n::nat. (1 / 2, Suc n)) (NewParallelRenderer 0)
      \<lparr>SceneCamera = \<lparr>Camera.Position = Vec3_zero, LookAt = \<lparr>X = 0, Y = 0, Z = - 1\<rparr>,
                       Up = \<lparr>X = 0, Y = 1, Z = 0\<rparr>, FOV = 90, AspectRatio = 1\<rparr>,
        Hittables = [Sphere \<lparr>X = 0, Y = 0, Z = - 3\<rparr> 1 (DiffuseLight \<lparr>X = 1, Y = 1, Z = 1\<rparr>)],
        Lights = []\<rparr> 800 600 0 = Some (Inr [], 0)"
proof -
  have w: "0 \<le> numWorkers (NewParallelRenderer 4)" "numWorkers (NewParallelRenderer 4) < 2 ^ 61"
    by (simp_all add: NewParallelRenderer_def)
  have z: "numWorkers (NewParallelRenderer 0) = 0" by (simp add: NewParallelRenderer_def)
  show ?thesis
    by (intro conjI Render_no_tiles[OF w] Render_zero_workers[OF z]) simp_all
qed

subsection \<open>One generator for all workers\<close>

lemma tracePixel_miss:
  assumes "2 \<le> n"
  shows "tracePixel ex_rnd (ex_renderer k) x 0 33 1 ex_camera ex_floor [] n = Some (Vec3_zero, Suc (Suc n))"
proof -
  have a: "RandomFloat ex_rnd n = (3 / 4, Suc n)" "RandomFloat ex_rnd (Suc n) = (3 / 4, Suc (Suc n))"
    using assms by (simp_all add: RandomFloat_def ex_rnd_def)
  have "hitWorld (getRay u (3 / 4) ex_camera) ex_floor (1 / 1000) PInf = None" for u
    by (simp add: hitWorld_def ex_floor_def getRay_def ex_camera_def NewRay_def Let_def Dot_def Sub_def
        Add_def MulScalar_def DivScalar_def Vec3_zero_def)
  then have t: "traceRay ex_rnd (ex_renderer k) (getRay u (3 / 4) ex_camera) ex_floor [] 0 s = Some (\<lparr>X = 0, Y = 0, Z = 0\<rparr>, s)"
    for u s
    by (subst traceRay.simps) (simp add: ex_renderer_def NewParallelRenderer_def)
  show ?thesis
    by (simp add: tracePixel_def ex_renderer_def NewParallelRenderer_def a Let_def
        t[unfolded ex_renderer_def NewParallelRenderer_def, simplified] Add_def DivScalar_def Vec3_zero_def)
qed

lemma tracePixel_hit:
  "tracePixel ex_rnd (ex_renderer k) x 0 33 1 ex_camera ex_floor [] 0
     = Some (\<lparr>X = 11 / 10, Y = 11 / 10, Z = 11 / 10\<rparr>, 2)"
proof -
  have a: "RandomFloat ex_rnd 0 = (3 / 4, Suc 0)" "RandomFloat ex_rnd (Suc 0) = (1 / 4, Suc (Suc 0))"
    by (simp_all add: RandomFloat_def ex_rnd_def)
  have "\<exists>h. hitWorld (getRay u (1 / 4) ex_camera) ex_floor (1 / 1000) PInf = Some h
      \<and> Material h = DiffuseLight \<lparr>X = 1, Y = 1, Z = 1\<rparr>" for u
    by (simp add: hitWorld_def ex_floor_def getRay_def ex_camera_def NewRay_def Let_def Dot_def Sub_def
        Add_def MulScalar_def DivScalar_def Vec3_zero_def Plane_record_def)
  then obtain h where h: "hitWorld (getRay ((real_of_int x + 3 / 4) / 33) (1 / 4) ex_camera) ex_floor (1 / 1000) PInf = Some h"
    "Material h = DiffuseLight \<lparr>X = 1, Y = 1, Z = 1\<rparr>" by blast
  have d: "calculateDirectLighting ex_rnd (ex_renderer k) h ex_floor [] s = Some (\<lparr>X = 1 / 10, Y = 1 / 10, Z = 1 / 10\<rparr>, s)"
    for s
    by (simp add: calculateDirectLighting_def Let_def h(2) DiffuseLight_def ambientStrength_def
        Add_def Vec3_zero_def)
  have t: "traceRay ex_rnd (ex_renderer k) (getRay ((real_of_int x + 3 / 4) / 33) (1 / 4) ex_camera) ex_floor [] 0 s
      = Some (\<lparr>X = 11 / 10, Y = 11 / 10, Z = 11 / 10\<rparr>, s)" for s
    apply (subst traceRay.simps)
    apply (simp add: h(1) d)
    apply (simp add: ex_renderer_def NewParallelRenderer_def h(2) DiffuseLight_def Add_def)
    done
  show ?thesis
    using t[of "Suc (Suc 0)"]
    by (simp add: tracePixel_def ex_renderer_def NewParallelRenderer_def a Let_def
        Add_def DivScalar_def Vec3_zero_def numeral_2_eq_2)
qed

lemma renderTile_loop_miss:
  assumes "taskWidth task = 33" "taskHeight task = 1" "taskCamera task = ex_camera"
  shows "2 \<le> n \<Longrightarrow>
    renderTile_loop ex_rnd (ex_renderer k) task ex_floor [] (map (\<lambda>x. (x, 0)) xs) acc n
      = Some (acc @ map (\<lambda>x. \<lparr>px = x, py = 0, pcolor = Vec3_zero\<rparr>) xs, n + 2 * length xs)"
proof (induction xs arbitrary: acc n)
  case Nil
  then show ?case by simp
next
  case (Cons x xs)
  from Cons.prems have "2 \<le> Suc (Suc n)" by simp
  from Cons.IH[OF this, of "acc @ [\<lparr>px = x, py = 0, pcolor = Vec3_zero\<rparr>]"]
  show ?case
    by (simp add: assms tracePixel_miss[OF Cons.prems])
qed

lemma tasks_33_1:
  "createRenderTasks 33 1 ex_camera =
     [\<lparr>startX = 0, startY = 0, endX = 32, endY = 1, taskWidth = 33, taskHeight = 1,
       taskCamera = ex_camera\<rparr>,
      \<lparr>startX = 32, startY = 0, endX = 33, endY = 1, taskWidth = 33, taskHeight = 1,
       taskCamera = ex_camera\<rparr>]"
  by (simp add: createRenderTasks_def wrap64_def signed_divide_int_def Let_def upto.simps)

lemma tilePixels_row:
  "tilePixels \<lparr>startX = a, startY = 0, endX = b, endY = 1, taskWidth = w, taskHeight = h,
       taskCamera = c\<rparr> = map (\<lambda>x. (x, 0)) [a .. b - 1]"
  by (simp add: tilePixels_def upto.simps)

lemma renderTile_second_late:
  "2 \<le> n \<Longrightarrow>
   renderTile ex_rnd (ex_renderer k) \<lparr>startX = 32, startY = 0, endX = 33, endY = 1, taskWidth = 33,
       taskHeight = 1, taskCamera = ex_camera\<rparr> ex_floor [] n
     = Some ([\<lparr>px = 32, py = 0, pcolor = Vec3_zero\<rparr>], n + 2)"
  unfolding renderTile_def tilePixels_row
  by (subst renderTile_loop_miss) (simp_all add: upto.simps)

lemma renderTile_second_first:
  "renderTile ex_rnd (ex_renderer k) \<lparr>startX = 32, startY = 0, endX = 33, endY = 1, taskWidth = 33,
       taskHeight = 1, taskCamera = ex_camera\<rparr> ex_floor [] 0
     = Some ([\<lparr>px = 32, py = 0, pcolor = \<lparr>X = 11 / 10, Y = 11 / 10, Z = 11 / 10\<rparr>\<rparr>], 2)"
  unfolding renderTile_def tilePixels_row
  by (simp add: upto.simps tracePixel_hit)

lemma renderTile_first_first:
  "renderTile ex_rnd (ex_renderer k) \<lparr>startX = 0, startY = 0, endX = 32, endY = 1, taskWidth = 33,
       taskHeight = 1, taskCamera = ex_camera\<rparr> ex_floor [] 0
     = Some (\<lparr>px = 0, py = 0, pcolor = \<lparr>X = 11 / 10, Y = 11 / 10, Z = 11 / 10\<rparr>\<rparr>
             # map (\<lambda>x. \<lparr>px = x, py = 0, pcolor = Vec3_zero\<rparr>) [1 .. 31], 64)"
proof -
  have u: "[0 .. 32 - 1] = 0 # [1 .. (31::int)]" by (simp add: upto_rec1)
  have l: "length [1 .. (31::int)] = 31" by simp
  show ?thesis
    unfolding renderTile_def tilePixels_row u
    by (simp add: tracePixel_hit renderTile_loop_miss l)
qed

lemma renderTile_first_late:
  "renderTile ex_rnd (ex_renderer k) \<lparr>startX = 0, startY = 0, endX = 32, endY = 1, taskWidth = 33,
       taskHeight = 1, taskCamera = ex_camera\<rparr> ex_floor [] 2
     = Some (map (\<lambda>x. \<lparr>px = x, py = 0, pcolor = Vec3_zero\<rparr>) [0 .. 31], 66)"
proof -
  have l: "length [0 .. (31::int)] = 32" by simp
  show ?thesis
    unfolding renderTile_def tilePixels_row
    by (subst renderTile_loop_miss) (simp_all add: l)
qed

lemma pool_step_one_worker:
  assumes "workers p = [w]" "pool_step rnd R hs ls i p = Some p'"
  shows "\<exists>w'. workers p' = [w'] \<and> pool_complete rnd R hs ls w' p' = pool_complete rnd R hs ls w p"
proof -
  from assms have i: "i = 0" by (auto simp: pool_step_def split: if_splits)
  show ?thesis
  proof (cases w)
    case Idle
    with assms i show ?thesis
      by (auto simp: pool_step_def renderTile_def split: list.splits option.splits)
  next
    case (Busy task rest pixels)
    show ?thesis
    proof (cases rest)
      case Nil
      with Busy assms i show ?thesis by (auto simp: pool_step_def)
    next
      case (Cons xy rest')
      obtain x y where xy: "xy = (x, y)" by (cases xy)
      with Cons Busy assms i show ?thesis
        by (auto simp: pool_step_def split: option.splits)
    qed
  qed
qed

lemma pool_run_one_worker:
  "workers p = [w] \<Longrightarrow> pool_run rnd R hs ls sched p = Some p'
   \<Longrightarrow> \<exists>w'. workers p' = [w'] \<and> pool_complete rnd R hs ls w' p' = pool_complete rnd R hs ls w p"
proof (induction sched arbitrary: p w)
  case Nil
  then show ?case by simp
next
  case (Cons i sched)
  from Cons.prems(2) obtain q where q: "pool_step rnd R hs ls i p = Some q"
    "pool_run rnd R hs ls sched q = Some p'"
    by (auto split: option.splits)
  from pool_step_one_worker[OF Cons.prems(1) q(1)] obtain w1 where
    w1: "workers q = [w1]" "pool_complete rnd R hs ls w1 q = pool_complete rnd R hs ls w p" by blast
  from Cons.IH[OF w1(1) q(2)] w1(2) show ?case by auto
qed

lemma one_worker_deterministic:
  assumes "numWorkers R = 1" "pool_run rnd R hs ls sched (pool_start R tasks s) = Some p" "pool_finished p"
  shows "worker rnd R tasks hs ls [] s = Some (sent p, gen p)"
proof -
  have w: "workers (pool_start R tasks s) = [Idle]" using assms(1) by (simp add: pool_start_def)
  from pool_run_one_worker[OF w assms(2)] obtain w' where
    w': "workers p = [w']" "pool_complete rnd R hs ls w' p = pool_complete rnd R hs ls Idle (pool_start R tasks s)"
    by blast
  from assms(3) w'(1) have "w' = Idle" "pending p = []" by (simp_all add: pool_finished_def)
  with w'(2) show ?thesis by (simp add: pool_start_def)
qed

lemma pool_run_append:
  "pool_run rnd R hs ls (a @ b) p =
     (case pool_run rnd R hs ls a p of None \<Rightarrow> None | Some q \<Rightarrow> pool_run rnd R hs ls b q)"
  by (induction a arbitrary: p) (simp_all split: option.splits)

lemma pool_run_pixels:
  "i < length (workers p) \<Longrightarrow> workers p ! i = Busy task rest pixels
   \<Longrightarrow> renderTile_loop rnd R task hs ls rest pixels (gen p) = Some (pixels', s')
   \<Longrightarrow> pool_run rnd R hs ls (replicate (length rest) i) p
       = Some (p\<lparr>workers := (workers p)[i := Busy task [] pixels'], gen := s'\<rparr>)"
proof (induction rest arbitrary: p pixels)
  case Nil
  then have "(workers p)[i := Busy task [] pixels'] = workers p"
    by (simp add: list_update_same_conv)
  with Nil show ?case by simp
next
  case (Cons xy rest)
  obtain x y where xy: "xy = (x, y)" by (cases xy)
  from Cons.prems(3) obtain color s1 where
    t: "tracePixel rnd R x y (taskWidth task) (taskHeight task) (taskCamera task) hs ls (gen p)
          = Some (color, s1)"
    and l: "renderTile_loop rnd R task hs ls rest (pixels @ [\<lparr>px = x, py = y, pcolor = color\<rparr>]) s1
          = Some (pixels', s')"
    by (auto simp: xy split: option.splits)
  let ?q = "p\<lparr>workers := (workers p)[i := Busy task rest (pixels @ [\<lparr>px = x, py = y, pcolor = color\<rparr>])],
              gen := s1\<rparr>"
  have st: "pool_step rnd R hs ls i p = Some ?q"
    using Cons.prems(1,2) t by (simp add: pool_step_def xy)
  have "pool_run rnd R hs ls (replicate (length rest) i) ?q
      = Some (?q\<lparr>workers := (workers ?q)[i := Busy task [] pixels'], gen := s'\<rparr>)"
    by (rule Cons.IH) (use Cons.prems(1) l in simp_all)
  then show ?case using st by simp
qed

lemma pool_run_tile:
  assumes "i < length (workers p)" "workers p ! i = Idle" "pending p = task # tasks"
    "renderTile rnd R task hs ls (gen p) = Some (pixels, s')"
  shows "pool_run rnd R hs ls (i # replicate (length (tilePixels task)) i @ [i]) p
       = Some (p\<lparr>pending := tasks,
                  sent := sent p @ [\<lparr>resultPixels = pixels, resultStartX = startX task,
                                      resultStartY = startY task\<rparr>],
                  gen := s'\<rparr>)"
proof -
  let ?q = "p\<lparr>pending := tasks, workers := (workers p)[i := Busy task (tilePixels task) []]\<rparr>"
  have a: "pool_step rnd R hs ls i p = Some ?q" using assms(1-3) by (simp add: pool_step_def)
  have b: "pool_run rnd R hs ls (replicate (length (tilePixels task)) i) ?q
      = Some (?q\<lparr>workers := (workers ?q)[i := Busy task [] pixels], gen := s'\<rparr>)"
    by (rule pool_run_pixels[where pixels = "[]"]) (use assms in \<open>simp_all add: renderTile_def\<close>)
  let ?r = "?q\<lparr>workers := (workers ?q)[i := Busy task [] pixels], gen := s'\<rparr>"
  have w: "(workers p)[i := Idle] = workers p" by (metis assms(2) list_update_id)
  have c: "pool_step rnd R hs ls i ?r
      = Some (p\<lparr>pending := tasks,
                  sent := sent p @ [\<lparr>resultPixels = pixels, resultStartX = startX task,
                                      resultStartY = startY task\<rparr>],
                  gen := s'\<rparr>)"
    using assms(1) by (simp add: pool_step_def w)
  show ?thesis
    using a b c by (simp add: pool_run_append)
qed

lemma pool_run_tasks:
  "i < length (workers p) \<Longrightarrow> workers p ! i = Idle \<Longrightarrow> pending p = tasks
   \<Longrightarrow> worker rnd R tasks hs ls (sent p) (gen p) = Some (rs, s')
   \<Longrightarrow> \<exists>sched. pool_run rnd R hs ls sched p = Some (p\<lparr>pending := [], sent := rs, gen := s'\<rparr>)"
proof (induction tasks arbitrary: p)
  case Nil
  then have "pool_run rnd R hs ls [] p = Some (p\<lparr>pending := [], sent := rs, gen := s'\<rparr>)" by simp
  then show ?case by blast
next
  case (Cons task tasks)
  from Cons.prems(4) obtain pixels s1 where
    t: "renderTile rnd R task hs ls (gen p) = Some (pixels, s1)"
    and w: "worker rnd R tasks hs ls
              (sent p @ [\<lparr>resultPixels = pixels, resultStartX = startX task,
                           resultStartY = startY task\<rparr>]) s1 = Some (rs, s')"
    by (auto split: option.splits)
  let ?q = "p\<lparr>pending := tasks,
              sent := sent p @ [\<lparr>resultPixels = pixels, resultStartX = startX task,
                                  resultStartY = startY task\<rparr>],
              gen := s1\<rparr>"
  have a: "pool_run rnd R hs ls (i # replicate (length (tilePixels task)) i @ [i]) p = Some ?q"
    by (rule pool_run_tile) (use Cons.prems t in simp_all)
  have "\<exists>sched. pool_run rnd R hs ls sched ?q = Some (?q\<lparr>pending := [], sent := rs, gen := s'\<rparr>)"
    by (rule Cons.IH) (use Cons.prems w in simp_all)
  then obtain sched where
    b: "pool_run rnd R hs ls sched ?q = Some (?q\<lparr>pending := [], sent := rs, gen := s'\<rparr>)" by blast
  have "pool_run rnd R hs ls ((i # replicate (length (tilePixels task)) i @ [i]) @ sched) p
      = Some (p\<lparr>pending := [], sent := rs, gen := s'\<rparr>)"
    unfolding pool_run_append a using b by simp
  then show ?case by blast
qed

lemma queue_order_reachable:
  assumes "0 < numWorkers R" "worker rnd R tasks hs ls [] s = Some (rs, s')"
  shows "\<exists>sched p. pool_run rnd R hs ls sched (pool_start R tasks s) = Some p \<and> pool_finished p
           \<and> sent p = rs \<and> gen p = s'"
proof -
  let ?p = "pool_start R tasks s"
  have "\<exists>sched. pool_run rnd R hs ls sched ?p = Some (?p\<lparr>pending := [], sent := rs, gen := s'\<rparr>)"
    by (rule pool_run_tasks[where i = 0 and tasks = tasks]) (use assms in \<open>simp_all add: pool_start_def\<close>)
  then obtain sched where
    r: "pool_run rnd R hs ls sched ?p = Some (?p\<lparr>pending := [], sent := rs, gen := s'\<rparr>)" by blast
  have "pool_finished (?p\<lparr>pending := [], sent := rs, gen := s'\<rparr>)"
    by (simp add: pool_finished_def pool_start_def list_all_length)
  with r show ?thesis by (intro exI[of _ sched] exI[of _ "?p\<lparr>pending := [], sent := rs, gen := s'\<rparr>"]) simp
qed

lemma pool_start_example:
  "pool_start (ex_renderer k) (createRenderTasks 33 1 ex_camera) (0::nat) =
     \<lparr>pending = [\<lparr>startX = 0, startY = 0, endX = 32, endY = 1, taskWidth = 33, taskHeight = 1,
                    taskCamera = ex_camera\<rparr>,
                  \<lparr>startX = 32, startY = 0, endX = 33, endY = 1, taskWidth = 33, taskHeight = 1,
                    taskCamera = ex_camera\<rparr>],
      workers = replicate (nat k) Idle, sent = [], gen = 0\<rparr>"
  by (simp add: pool_start_def tasks_33_1 ex_renderer_def NewParallelRenderer_def)

lemma length_tilePixels_example:
  "length (tilePixels \<lparr>startX = 0, startY = 0, endX = 32, endY = 1, taskWidth = 33, taskHeight = 1,
       taskCamera = ex_camera\<rparr>) = 32"
  "length (tilePixels \<lparr>startX = 32, startY = 0, endX = 33, endY = 1, taskWidth = 33, taskHeight = 1,
       taskCamera = ex_camera\<rparr>) = 1"
  by (simp_all add: tilePixels_row)

lemma worker_example:
  "worker ex_rnd (ex_renderer k) (createRenderTasks 33 1 ex_camera) ex_floor [] [] 0
     = Some ([\<lparr>resultPixels =
                  \<lparr>px = 0, py = 0, pcolor = \<lparr>X = 11 / 10, Y = 11 / 10, Z = 11 / 10\<rparr>\<rparr>
                  # map (\<lambda>x. \<lparr>px = x, py = 0, pcolor = Vec3_zero\<rparr>) [1 .. 31],
                resultStartX = 0, resultStartY = 0\<rparr>,
              \<lparr>resultPixels = [\<lparr>px = 32, py = 0, pcolor = Vec3_zero\<rparr>],
                resultStartX = 32, resultStartY = 0\<rparr>], 66)"
  by (simp add: tasks_33_1 renderTile_first_first renderTile_second_late)

lemma pool_run_queue_order_example:
  assumes "0 < k"
  shows "pool_run ex_rnd (ex_renderer k) ex_floor [] (replicate 37 0)
      (pool_start (ex_renderer k) (createRenderTasks 33 1 ex_camera) 0)
     = Some \<lparr>pending = [], workers = replicate (nat k) Idle,
         sent = [\<lparr>resultPixels =
                    \<lparr>px = 0, py = 0, pcolor = \<lparr>X = 11 / 10, Y = 11 / 10, Z = 11 / 10\<rparr>\<rparr>
                    # map (\<lambda>x. \<lparr>px = x, py = 0, pcolor = Vec3_zero\<rparr>) [1 .. 31],
                  resultStartX = 0, resultStartY = 0\<rparr>,
                \<lparr>resultPixels = [\<lparr>px = 32, py = 0, pcolor = Vec3_zero\<rparr>],
                  resultStartX = 32, resultStartY = 0\<rparr>],
         gen = 66\<rparr>"
proof -
  let ?T1 = "\<lparr>startX = 0, startY = 0, endX = 32, endY = 1, taskWidth = 33, taskHeight = 1,
       taskCamera = ex_camera\<rparr>"
  let ?T2 = "\<lparr>startX = 32, startY = 0, endX = 33, endY = 1, taskWidth = 33, taskHeight = 1,
       taskCamera = ex_camera\<rparr>"
  let ?p0 = "\<lparr>pending = [?T1, ?T2], workers = replicate (nat k) Idle, sent = [], gen = 0::nat\<rparr>"
  have "replicate 37 (0::nat) = replicate (1 + (32 + 4)) 0" by simp
  then have "replicate 37 (0::nat) = replicate 1 0 @ replicate 32 0 @ replicate 4 0"
    by (simp only: replicate_add)
  moreover have "replicate 4 (0::nat) = [0, 0, 0, 0]" by (simp add: eval_nat_numeral)
  ultimately have s: "replicate 37 (0::nat) = (0 # replicate 32 0 @ [0]) @ (0 # replicate 1 0 @ [0])"
    by simp
  have a: "pool_run ex_rnd (ex_renderer k) ex_floor [] (0 # replicate (length (tilePixels ?T1)) 0 @ [0]) ?p0
      = Some (?p0\<lparr>pending := [?T2],
            sent := sent ?p0 @ [\<lparr>resultPixels =
                    \<lparr>px = 0, py = 0, pcolor = \<lparr>X = 11 / 10, Y = 11 / 10, Z = 11 / 10\<rparr>\<rparr>
                    # map (\<lambda>x. \<lparr>px = x, py = 0, pcolor = Vec3_zero\<rparr>) [1 .. 31],
                  resultStartX = startX ?T1, resultStartY = startY ?T1\<rparr>],
            gen := 64\<rparr>)"
    by (rule pool_run_tile) (use assms in \<open>simp_all add: renderTile_first_first\<close>)
  let ?p1 = "\<lparr>pending = [?T2], workers = replicate (nat k) Idle,
      sent = [\<lparr>resultPixels =
                    \<lparr>px = 0, py = 0, pcolor = \<lparr>X = 11 / 10, Y = 11 / 10, Z = 11 / 10\<rparr>\<rparr>
                    # map (\<lambda>x. \<lparr>px = x, py = 0, pcolor = Vec3_zero\<rparr>) [1 .. 31],
                  resultStartX = 0, resultStartY = 0\<rparr>], gen = 64::nat\<rparr>"
  have b: "pool_run ex_rnd (ex_renderer k) ex_floor [] (0 # replicate (length (tilePixels ?T2)) 0 @ [0]) ?p1
      = Some (?p1\<lparr>pending := [],
            sent := sent ?p1 @ [\<lparr>resultPixels = [\<lparr>px = 32, py = 0, pcolor = Vec3_zero\<rparr>],
                  resultStartX = startX ?T2, resultStartY = startY ?T2\<rparr>],
            gen := 64 + 2\<rparr>)"
    by (rule pool_run_tile) (use assms in \<open>simp_all add: renderTile_second_late\<close>)
  show ?thesis
    unfolding pool_start_example s pool_run_append
    using a b by (simp add: length_tilePixels_example)
qed

lemma pool_run_second_tile_first_example:
  "pool_run ex_rnd (ex_renderer 2) ex_floor [] ([0, 1, 1, 1] @ replicate 33 0)
      (pool_start (ex_renderer 2) (createRenderTasks 33 1 ex_camera) 0)
     = Some \<lparr>pending = [], workers = [Idle, Idle],
         sent = [\<lparr>resultPixels =
                    [\<lparr>px = 32, py = 0, pcolor = \<lparr>X = 11 / 10, Y = 11 / 10, Z = 11 / 10\<rparr>\<rparr>],
                  resultStartX = 32, resultStartY = 0\<rparr>,
                \<lparr>resultPixels = map (\<lambda>x. \<lparr>px = x, py = 0, pcolor = Vec3_zero\<rparr>) [0 .. 31],
                  resultStartX = 0, resultStartY = 0\<rparr>],
         gen = 66\<rparr>"
proof -
  let ?T1 = "\<lparr>startX = 0, startY = 0, endX = 32, endY = 1, taskWidth = 33, taskHeight = 1,
       taskCamera = ex_camera\<rparr>"
  let ?T2 = "\<lparr>startX = 32, startY = 0, endX = 33, endY = 1, taskWidth = 33, taskHeight = 1,
       taskCamera = ex_camera\<rparr>"
  let ?r2 = "\<lparr>resultPixels =
                    [\<lparr>px = 32, py = 0, pcolor = \<lparr>X = 11 / 10, Y = 11 / 10, Z = 11 / 10\<rparr>\<rparr>],
                  resultStartX = 32, resultStartY = 0\<rparr>"
  let ?p0 = "\<lparr>pending = [?T1, ?T2], workers = [Idle, Idle], sent = [], gen = 0::nat\<rparr>"
  let ?p2 = "\<lparr>pending = [], workers = [Busy ?T1 (tilePixels ?T1) [], Busy ?T2 (tilePixels ?T2) []],
      sent = [], gen = 0::nat\<rparr>"
  let ?p3 = "\<lparr>pending = [], workers = [Busy ?T1 (tilePixels ?T1) [],
        Busy ?T2 [] [\<lparr>px = 32, py = 0, pcolor = \<lparr>X = 11 / 10, Y = 11 / 10, Z = 11 / 10\<rparr>\<rparr>]],
      sent = [], gen = 2::nat\<rparr>"
  let ?p4 = "\<lparr>pending = [], workers = [Busy ?T1 (tilePixels ?T1) [], Idle],
      sent = [?r2], gen = 2::nat\<rparr>"
  let ?p5 = "\<lparr>pending = [], workers = [Busy ?T1 []
        (map (\<lambda>x. \<lparr>px = x, py = 0, pcolor = Vec3_zero\<rparr>) [0 .. 31]), Idle],
      sent = [?r2], gen = 66::nat\<rparr>"
  have "replicate 33 (0::nat) = replicate (32 + 1) 0" by simp
  then have "replicate 33 (0::nat) = replicate 32 0 @ replicate 1 0"
    by (simp only: replicate_add)
  then have s: "[0, 1, 1, 1] @ replicate 33 (0::nat) = [0, 1] @ replicate 1 1 @ [1] @ replicate 32 0 @ [0]"
    by simp
  have w: "replicate (nat 2) Idle = [Idle, Idle]" by (simp add: numeral_2_eq_2)
  have a: "pool_run ex_rnd (ex_renderer 2) ex_floor [] [0, 1] ?p0 = Some ?p2"
    by (simp add: pool_step_def)
  have b: "pool_run ex_rnd (ex_renderer 2) ex_floor [] (replicate (length (tilePixels ?T2)) 1) ?p2
      = Some (?p2\<lparr>workers := (workers ?p2)[1 := Busy ?T2 []
            [\<lparr>px = 32, py = 0, pcolor = \<lparr>X = 11 / 10, Y = 11 / 10, Z = 11 / 10\<rparr>\<rparr>]], gen := 2\<rparr>)"
    by (rule pool_run_pixels[where pixels = "[]"])
      (use renderTile_second_first[of 2] in \<open>simp_all add: renderTile_def\<close>)
  have c: "pool_run ex_rnd (ex_renderer 2) ex_floor [] [1] ?p3 = Some ?p4"
    by (simp add: pool_step_def)
  have d: "pool_run ex_rnd (ex_renderer 2) ex_floor [] (replicate (length (tilePixels ?T1)) 0) ?p4
      = Some (?p4\<lparr>workers := (workers ?p4)[0 := Busy ?T1 []
            (map (\<lambda>x. \<lparr>px = x, py = 0, pcolor = Vec3_zero\<rparr>) [0 .. 31])], gen := 66\<rparr>)"
    by (rule pool_run_pixels[where pixels = "[]"])
      (use renderTile_first_late[of 2] in \<open>simp_all add: renderTile_def\<close>)
  have e: "pool_run ex_rnd (ex_renderer 2) ex_floor [] [0] ?p5
      = Some \<lparr>pending = [], workers = [Idle, Idle],
         sent = [?r2, \<lparr>resultPixels = map (\<lambda>x. \<lparr>px = x, py = 0, pcolor = Vec3_zero\<rparr>) [0 .. 31],
                  resultStartX = 0, resultStartY = 0\<rparr>], gen = 66\<rparr>"
    by (simp add: pool_step_def)
  show ?thesis
    unfolding pool_start_example w s pool_run_append
    using a b c d e by (simp add: length_tilePixels_example)
qed

lemma example_radiance_differs:
  "set (concat (map resultPixels
     [\<lparr>resultPixels =
         \<lparr>px = 0, py = 0, pcolor = \<lparr>X = 11 / 10, Y = 11 / 10, Z = 11 / 10\<rparr>\<rparr>
         # map (\<lambda>x. \<lparr>px = x, py = 0, pcolor = Vec3_zero\<rparr>) [1 .. 31],
       resultStartX = 0, resultStartY = 0\<rparr>,
      \<lparr>resultPixels = [\<lparr>px = 32, py = 0, pcolor = Vec3_zero\<rparr>],
       resultStartX = 32, resultStartY = 0\<rparr>]))
   \<noteq> set (concat (map resultPixels
     [\<lparr>resultPixels =
         [\<lparr>px = 32, py = 0, pcolor = \<lparr>X = 11 / 10, Y = 11 / 10, Z = 11 / 10\<rparr>\<rparr>],
       resultStartX = 32, resultStartY = 0\<rparr>,
      \<lparr>resultPixels = map (\<lambda>x. \<lparr>px = x, py = 0, pcolor = Vec3_zero\<rparr>) [0 .. 31],
       resultStartX = 0, resultStartY = 0\<rparr>]))"
  (is "?A \<noteq> ?B")
proof -
  have "\<lparr>px = 0, py = 0, pcolor = \<lparr>X = 11 / 10, Y = 11 / 10, Z = 11 / 10\<rparr>\<rparr> \<in> ?A" by simp
  moreover have "\<lparr>px = 0, py = 0, pcolor = \<lparr>X = 11 / 10, Y = 11 / 10, Z = 11 / 10\<rparr>\<rparr> \<notin> ?B"
    by (auto simp: Vec3_zero_def)
  ultimately show ?thesis by blast
qed

text \<open>
  C8 (as amended). Rendering is reproducible from the state of the one shared generator
  when there is one worker: every schedule that lets the single worker finish ends with
  the results and the generator state of \<open>worker\<close> run on the task list from the start
  state, tile after tile, each tile continuing from the state the tile before left. With
  any positive number of workers that outcome is reached by some schedule. It is not
  reached by all of them: the workers draw from the same generator in the order of the
  schedule, and for the renderer with two workers there are two schedules from the same
  start state that end with different radiance.
\<close>

theorem pool_draws_from_one_generator:
  "(numWorkers R = 1 \<and> pool_run rnd R hs ls sched (pool_start R tasks s) = Some p
      \<and> pool_finished p
      \<longrightarrow> worker rnd R tasks hs ls [] s = Some (sent p, gen p))
   \<and> (0 < numWorkers R \<and> worker rnd R tasks hs ls [] s = Some (rs, s')
      \<longrightarrow> (\<exists>sched p. pool_run rnd R hs ls sched (pool_start R tasks s) = Some p
             \<and> pool_finished p \<and> sent p = rs \<and> gen p = s'))
   \<and> (\<exists>sched sched' p p'.
         pool_run ex_rnd (ex_renderer 2) ex_floor [] sched
           (pool_start (ex_renderer 2) (createRenderTasks 33 1 ex_camera) 0) = Some p
         \<and> pool_finished p
         \<and> pool_run ex_rnd (ex_renderer 2) ex_floor [] sched'
           (pool_start (ex_renderer 2) (createRenderTasks 33 1 ex_camera) 0) = Some p'
         \<and> pool_finished p'
         \<and> set (concat (map resultPixels (sent p))) \<noteq> set (concat (map resultPixels (sent p'))))"
proof (intro conjI impI)
  assume "numWorkers R = 1 \<and> pool_run rnd R hs ls sched (pool_start R tasks s) = Some p
      \<and> pool_finished p"
  then have "numWorkers R = 1" "pool_run rnd R hs ls sched (pool_start R tasks s) = Some p"
    "pool_finished p" by simp_all
  then show "worker rnd R tasks hs ls [] s = Some (sent p, gen p)"
    by (rule one_worker_deterministic)
next
  assume "0 < numWorkers R \<and> worker rnd R tasks hs ls [] s = Some (rs, s')"
  then have "0 < numWorkers R" "worker rnd R tasks hs ls [] s = Some (rs, s')" by simp_all
  then show "\<exists>sched p. pool_run rnd R hs ls sched (pool_start R tasks s) = Some p
             \<and> pool_finished p \<and> sent p = rs \<and> gen p = s'"
    by (rule queue_order_reachable)
next
  have w: "replicate (nat 2) Idle = [Idle, Idle]" by (simp add: numeral_2_eq_2)
  note a = pool_run_queue_order_example[of 2, unfolded w, simplified]
  note b = pool_run_second_tile_first_example
  show "\<exists>sched sched' p p'.
         pool_run ex_rnd (ex_renderer 2) ex_floor [] sched
           (pool_start (ex_renderer 2) (createRenderTasks 33 1 ex_camera) 0) = Some p
         \<and> pool_finished p
         \<and> pool_run ex_rnd (ex_renderer 2) ex_floor [] sched'
           (pool_start (ex_renderer 2) (createRenderTasks 33 1 ex_camera) 0) = Some p'
         \<and> pool_finished p'
         \<and> set (concat (map resultPixels (sent p))) \<noteq> set (concat (map resultPixels (sent p')))"
    apply (rule exI[of _ "replicate 37 0"])
    apply (rule exI[of _ "[0, 1, 1, 1] @ replicate 33 0"])
    apply (intro exI conjI)
        apply (rule a)
       apply (simp add: pool_finished_def)
      apply (rule b)
     apply (simp add: pool_finished_def)
    using example_radiance_differs apply simp
    done
qed

text \<open>
  The statement at the example: the renderer with one worker, whose only complete schedule
  is 37 steps long, and the renderer with two workers.
\<close>

theorem pool_draws_from_one_generator_witness:
  "worker ex_rnd (ex_renderer 1) (createRenderTasks 33 1 ex_camera) ex_floor [] [] 0
     = Some ([\<lparr>resultPixels =
                  \<lparr>px = 0, py = 0, pcolor = \<lparr>X = 11 / 10, Y = 11 / 10, Z = 11 / 10\<rparr>\<rparr>
                  # map (\<lambda>x. \<lparr>px = x, py = 0, pcolor = Vec3_zero\<rparr>) [1 .. 31],
                resultStartX = 0, resultStartY = 0\<rparr>,
              \<lparr>resultPixels = [\<lparr>px = 32, py = 0, pcolor = Vec3_zero\<rparr>],
                resultStartX = 32, resultStartY = 0\<rparr>], 66)
   \<and> (\<exists>sched p.
         pool_run ex_rnd (ex_renderer 2) ex_floor [] sched
           (pool_start (ex_renderer 2) (createRenderTasks 33 1 ex_camera) 0) = Some p
         \<and> pool_finished p
         \<and> sent p = [\<lparr>resultPixels =
                  \<lparr>px = 0, py = 0, pcolor = \<lparr>X = 11 / 10, Y = 11 / 10, Z = 11 / 10\<rparr>\<rparr>
                  # map (\<lambda>x. \<lparr>px = x, py = 0, pcolor = Vec3_zero\<rparr>) [1 .. 31],
                resultStartX = 0, resultStartY = 0\<rparr>,
              \<lparr>resultPixels = [\<lparr>px = 32, py = 0, pcolor = Vec3_zero\<rparr>],
                resultStartX = 32, resultStartY = 0\<rparr>]
         \<and> gen p = 66)"
proof -
  let ?tasks = "createRenderTasks 33 1 ex_camera"
  let ?rs = "[\<lparr>resultPixels =
                  \<lparr>px = 0, py = 0, pcolor = \<lparr>X = 11 / 10, Y = 11 / 10, Z = 11 / 10\<rparr>\<rparr>
                  # map (\<lambda>x. \<lparr>px = x, py = 0, pcolor = Vec3_zero\<rparr>) [1 .. 31],
                resultStartX = 0, resultStartY = 0\<rparr>,
              \<lparr>resultPixels = [\<lparr>px = 32, py = 0, pcolor = Vec3_zero\<rparr>],
                resultStartX = 32, resultStartY = 0\<rparr>]"
  let ?p = "\<lparr>pending = [], workers = replicate (nat 1) Idle, sent = ?rs, gen = 66::nat\<rparr>"
  have n: "numWorkers (ex_renderer 1) = 1" "0 < numWorkers (ex_renderer 2)"
    by (simp_all add: ex_renderer_def NewParallelRenderer_def)
  have r: "pool_run ex_rnd (ex_renderer 1) ex_floor [] (replicate 37 0)
      (pool_start (ex_renderer 1) ?tasks 0) = Some ?p"
    by (rule pool_run_queue_order_example) simp
  have f: "pool_finished ?p" by (simp add: pool_finished_def)
  from pool_draws_from_one_generator[where R = "ex_renderer 1" and rnd = ex_rnd and hs = ex_floor
      and ls = "[]" and sched = "replicate 37 0" and tasks = ?tasks and s = 0 and p = ?p]
    n(1) r f
  have a: "worker ex_rnd (ex_renderer 1) ?tasks ex_floor [] [] 0 = Some (?rs, 66)" by simp
  from pool_draws_from_one_generator[where R = "ex_renderer 2" and rnd = ex_rnd and hs = ex_floor
      and ls = "[]" and tasks = ?tasks and s = 0 and rs = ?rs and s' = 66]
    n(2) worker_example[of 2]
  have b: "\<exists>sched p. pool_run ex_rnd (ex_renderer 2) ex_floor [] sched
           (pool_start (ex_renderer 2) ?tasks 0) = Some p
         \<and> pool_finished p \<and> sent p = ?rs \<and> gen p = 66" by blast
  from a b show ?thesis by (intro conjI)
qed

text \<open>
  C8, the claim as stated fails. A 33 by 1 image has two tiles, and the renderer has two
  workers. In the first schedule worker 0 receives, traces and sends both tiles. In the
  second, worker 0 receives the first tile and worker 1 the second, worker 1 traces and
  sends its tile, and then worker 0 traces and sends the first. Both start from the same
  generator state with everything else equal. The first gives pixel (0,0) the radiance 1.1
  and pixel (32,0) black, the second the opposite.
\<close>

theorem pool_schedule_changes_radiance:
  "pool_run ex_rnd (ex_renderer 2) ex_floor [] (replicate 37 0)
      (pool_start (ex_renderer 2) (createRenderTasks 33 1 ex_camera) 0)
     = Some \<lparr>pending = [], workers = [Idle, Idle],
         sent = [\<lparr>resultPixels =
                    \<lparr>px = 0, py = 0, pcolor = \<lparr>X = 11 / 10, Y = 11 / 10, Z = 11 / 10\<rparr>\<rparr>
                    # map (\<lambda>x. \<lparr>px = x, py = 0, pcolor = Vec3_zero\<rparr>) [1 .. 31],
                  resultStartX = 0, resultStartY = 0\<rparr>,
                \<lparr>resultPixels = [\<lparr>px = 32, py = 0, pcolor = Vec3_zero\<rparr>],
                  resultStartX = 32, resultStartY = 0\<rparr>],
         gen = 66\<rparr>
   \<and> pool_run ex_rnd (ex_renderer 2) ex_floor [] ([0, 1, 1, 1] @ replicate 33 0)
      (pool_start (ex_renderer 2) (createRenderTasks 33 1 ex_camera) 0)
     = Some \<lparr>pending = [], workers = [Idle, Idle],
         sent = [\<lparr>resultPixels =
                    [\<lparr>px = 32, py = 0, pcolor = \<lparr>X = 11 / 10, Y = 11 / 10, Z = 11 / 10\<rparr>\<rparr>],
                  resultStartX = 32, resultStartY = 0\<rparr>,
                \<lparr>resultPixels = map (\<lambda>x. \<lparr>px = x, py = 0, pcolor = Vec3_zero\<rparr>) [0 .. 31],
                  resultStartX = 0, resultStartY = 0\<rparr>],
         gen = 66\<rparr>"
proof -
  have w: "replicate (nat 2) Idle = [Idle, Idle]" by (simp add: numeral_2_eq_2)
  from pool_run_queue_order_example[of 2, unfolded w, simplified]
    pool_run_second_tile_first_example
  show ?thesis by (intro conjI)
qed

end
